theory Spec2Isabelle
  imports Main
begin

section \<open>The Zandagort core server (zandagort.py)\<close>

text \<open>
  A shallow embedding of \<^verbatim>\<open>src/zandagort.py\<close>: the flattening of a parsed query string,
  the log functions, the execution of inner commands and of client requests, the cron
  helper, the main loop \<^verbatim>\<open>serve_forever\<close> and \<^verbatim>\<open>main\<close>.

  The modules \<^verbatim>\<open>config\<close>, \<^verbatim>\<open>game\<close>, \<^verbatim>\<open>mycron\<close>, \<^verbatim>\<open>getcontroller\<close>, \<^verbatim>\<open>postcontroller\<close> and
  \<^verbatim>\<open>utils\<close> are not part of the sources: what zandagort.py calls in them is a parameter
  of the model (the record \<open>env\<close>, the attribute tables of the controllers).
  Strings are \<open>string\<close>; a Python name that starts with an underscore loses it.
\<close>

subsection \<open>Python values the model needs\<close>

text \<open>
  An exception as the code observes it: which of the classes named in an \<^verbatim>\<open>except\<close>
  clause of zandagort.py it derives from, \<^verbatim>\<open>exc_type.__name__\<close>, \<^verbatim>\<open>str(exc_value)\<close> and
  the lines of \<^verbatim>\<open>traceback.format_exception\<close>.
\<close>

datatype exc_base = Exception | KeyboardInterrupt | SystemExit | BaseException

record exc =
  base :: exc_base
  exc_name :: string
  exc_value :: string
  trace_lines :: "string list"

text \<open>A call either returns a value or raises.\<close>

datatype 'x outcome = Returned 'x | Raised exc

text \<open>\<^verbatim>\<open>str(n)\<close> for an integer.\<close>

definition digit_char :: "nat \<Rightarrow> char" where
  "digit_char d = ''0123456789'' ! d"

fun str_nat :: "nat \<Rightarrow> string" where
  "str_nat n = (if n < 10 then [digit_char n] else str_nat (n div 10) @ [digit_char (n mod 10)])"

declare str_nat.simps [simp del]

definition str_int :: "int \<Rightarrow> string" where
  "str_int i = (if i < 0 then CHR ''-'' # str_nat (nat (- i)) else str_nat (nat i))"

text \<open>
  \<^verbatim>\<open>s.upper()\<close> on the ASCII letters (the log types are the literals access, error
  and sys), and \<^verbatim>\<open>s.rstrip()\<close>: the characters below 256 that \<^verbatim>\<open>str.isspace\<close> accepts.
\<close>

definition upper_char :: "char \<Rightarrow> char" where
  "upper_char c =
     (case map_of (zip ''abcdefghijklmnopqrstuvwxyz'' ''ABCDEFGHIJKLMNOPQRSTUVWXYZ'') c of
        None \<Rightarrow> c
      | Some u \<Rightarrow> u)"

definition upper :: "string \<Rightarrow> string" where
  "upper s = map upper_char s"

definition isspace :: "char \<Rightarrow> bool" where
  "isspace c = (c \<in> set [CHR 0x09, CHR 0x0A, CHR 0x0B, CHR 0x0C, CHR 0x0D, CHR 0x1C, CHR 0x1D,
                          CHR 0x1E, CHR 0x1F, CHR 0x20, CHR 0x85, CHR 0xA0])"

definition rstrip :: "string \<Rightarrow> string" where
  "rstrip s = rev (dropWhile isspace (rev s))"

subsection \<open>The flat query dictionary\<close>

text \<open>
  \<^verbatim>\<open>_parse_qs_flat\<close> (lines 78-84). \<^verbatim>\<open>parse_qs\<close> is the standard library's; its result
  \<^verbatim>\<open>deep_query_dict\<close> is the argument here, a dictionary in insertion order as an
  association list. \<^verbatim>\<open>d[key] = v\<close> replaces the value of a key that is present and
  appends a new key; \<^verbatim>\<open>deep_value[0]\<close> raises IndexError on an empty list.
\<close>

datatype py_error = IndexError

fun dict_set :: "('k \<times> 'v) list \<Rightarrow> 'k \<Rightarrow> 'v \<Rightarrow> ('k \<times> 'v) list" where
  "dict_set [] k v = [(k, v)]"
| "dict_set ((k', v') # d) k v = (if k' = k then (k, v) # d else (k', v') # dict_set d k v)"

fun flatten_items :: "(string \<times> string list) list \<Rightarrow> (string \<times> string) list
    \<Rightarrow> py_error + (string \<times> string) list" where
  "flatten_items [] flat_query_dict = Inr flat_query_dict"
| "flatten_items ((key, deep_value) # items) flat_query_dict =
     (case deep_value of
        [] \<Rightarrow> Inl IndexError
      | v # _ \<Rightarrow> flatten_items items (dict_set flat_query_dict key v))"

definition parse_qs_flat :: "(string \<Rightarrow> (string \<times> string list) list) \<Rightarrow> string
    \<Rightarrow> py_error + (string \<times> string) list" where
  "parse_qs_flat parse_qs query = flatten_items (parse_qs query) []"

subsection \<open>Work items, responses, controllers and the server\<close>

datatype InnerCommands = Sim | Dump | Other_command string

fun str_InnerCommands :: "InnerCommands \<Rightarrow> string" where
  "str_InnerCommands Sim = ''InnerCommands.Sim''"
| "str_InnerCommands Dump = ''InnerCommands.Dump''"
| "str_InnerCommands (Other_command s) = s"

text \<open>
  The arguments of a request: the marker \<^verbatim>\<open>ErrorCodes.ArgumentSyntaxError\<close> when the
  request handler could not parse them, the parsed object otherwise.
\<close>

datatype 'a arguments = ArgumentSyntaxError | Parsed 'a

text \<open>
  The dictionary \<^verbatim>\<open>_get_response\<close> puts on the request queue (lines 144-151); the
  reply queue is the address of the \<^verbatim>\<open>queue.Queue\<close> object of the request thread.
\<close>

record 'a client_request =
  response_queue :: nat
  req_method :: string
  command :: string
  arguments :: "'a arguments"
  auth_cookie_value :: string
  client_ip :: string

text \<open>
  A work item is the dictionary with the key \<^verbatim>\<open>inner_command\<close> that \<^verbatim>\<open>_cron_fun\<close>
  builds, or the dictionary of a client request.
\<close>

datatype 'a work_item = Inner_command InnerCommands | Client_request "'a client_request"

text \<open>
  The two response dictionaries of \<^verbatim>\<open>_execute_client_request\<close>:
  \<^verbatim>\<open>{"error": e, "auth_cookie_value": c}\<close> and \<^verbatim>\<open>{"response": r, "auth_cookie_value": c}\<close>.
\<close>

datatype 'r response = Error_response string string | Ok_response 'r string

fun response_cookie :: "'r response \<Rightarrow> string" where
  "response_cookie (Error_response e c) = c"
| "response_cookie (Ok_response r c) = c"

text \<open>
  What \<^verbatim>\<open>getattr(controller, command)\<close> finds: its attribute \<^verbatim>\<open>is_public\<close> (None when
  it has none) and the call \<^verbatim>\<open>controller_function(**arguments)\<close>, which sees the
  controller's \<^verbatim>\<open>current_user\<close> and \<^verbatim>\<open>auth_cookie_value\<close> and the game, and returns
  or raises (also the TypeError of Python itself when the attribute cannot be called
  or the arguments do not fit). A controller is its attribute table, as \<^verbatim>\<open>getattr\<close>
  reads it, and the values of the two attributes that line 315 and 316 assign.
\<close>

record ('g, 'u, 'a, 'r) controller_function =
  is_public :: "bool option"
  invoke :: "'a \<Rightarrow> 'u \<Rightarrow> string \<Rightarrow> 'g \<Rightarrow> 'r outcome \<times> 'g"

record ('g, 'u, 'a, 'r) controller =
  attrs :: "string \<Rightarrow> ('g, 'u, 'a, 'r) controller_function option"
  current_user :: "'u option"
  controller_cookie :: "string option"

text \<open>
  The state of a \<^verbatim>\<open>ZandagortServer\<close>: the game, the request queue, the two controllers
  of \<^verbatim>\<open>self._controllers\<close>, the lines written to each open log file and to standard
  output, the number of times the clock was read, the content of every reply queue,
  whether the HTTP server runs and whether the log files are closed.
\<close>

record ('g, 'u, 'a, 'r) server =
  game :: 'g
  request_queue :: "'a work_item list"
  get_controller :: "('g, 'u, 'a, 'r) controller"
  post_controller :: "('g, 'u, 'a, 'r) controller"
  logfiles :: "string \<Rightarrow> string list option"
  stdout :: "string list"
  clock :: nat
  reply_queues :: "nat \<Rightarrow> 'r response list"
  http_running :: bool
  logfiles_closed :: bool

text \<open>
  What the code calls outside the sources: \<^verbatim>\<open>config.SERVER_LOG_STDOUT\<close> (the truth
  value of each entry), the formatted time at the n-th reading of the clock, the game's
  \<^verbatim>\<open>sim\<close> and \<^verbatim>\<open>str(get_time())\<close>, the four functions of \<^verbatim>\<open>game.auth\<close> and
  \<^verbatim>\<open>utils.create_request_string\<close>. Two more say what Python does with a data attribute
  that \<^verbatim>\<open>getattr\<close> finds in place of a method: what a user object of \<^verbatim>\<open>game.auth\<close> is as
  \<^verbatim>\<open>controller_function\<close> (its \<^verbatim>\<open>is_public\<close> and the call on it), and the message and
  traceback of the TypeError that the call on a \<^verbatim>\<open>str\<close> raises. Of all these only
  \<^verbatim>\<open>sim\<close> and the call of a controller function may raise; the others, and the writes
  to the log files and to standard output, are taken to return.
\<close>

record ('g, 'u, 'a, 'r) env =
  SERVER_LOG_STDOUT :: "string \<Rightarrow> bool option"
  now :: "nat \<Rightarrow> string"
  sim :: "'g \<Rightarrow> unit outcome \<times> 'g"
  get_time :: "'g \<Rightarrow> string"
  get_user_by_auth_cookie :: "string \<Rightarrow> 'g \<Rightarrow> 'u option"
  create_new_session :: "'g \<Rightarrow> (string \<times> 'u) \<times> 'g"
  renew_session :: "string \<Rightarrow> 'g \<Rightarrow> 'g"
  is_guest :: "'u \<Rightarrow> 'g \<Rightarrow> bool"
  create_request_string :: "string \<Rightarrow> string \<Rightarrow> 'a arguments \<Rightarrow> string \<Rightarrow> string"
  user_attribute :: "'u \<Rightarrow> ('g, 'u, 'a, 'r) controller_function"
  str_not_callable :: "string \<Rightarrow> 'a \<Rightarrow> string \<times> string list"

subsection \<open>Logging\<close>

text \<open>
  Line 340, whether \<^verbatim>\<open>_log\<close> prints the lines of a log type: the default of
  \<^verbatim>\<open>SERVER_LOG_STDOUT.get\<close> is the string "False", which is true.
\<close>

definition echo :: "('g, 'u, 'a, 'r) env \<Rightarrow> string \<Rightarrow> bool" where
  "echo e logtype = (case SERVER_LOG_STDOUT e logtype of None \<Rightarrow> True | Some b \<Rightarrow> b)"

text \<open>
  \<^verbatim>\<open>_log\<close> (lines 336-346). No path of the model writes to a log file after
  \<^verbatim>\<open>_shutdown\<close> closed it.
\<close>

definition server_log :: "('g, 'u, 'a, 'r) env \<Rightarrow> string \<Rightarrow> string \<Rightarrow> bool
    \<Rightarrow> ('g, 'u, 'a, 'r) server \<Rightarrow> ('g, 'u, 'a, 'r) server" where
  "server_log e logtype message raw s =
     (let message' = (if \<not> raw then now e (clock s) @ '' '' @ message else message);
          s1 = (if \<not> raw then s\<lparr>clock := Suc (clock s)\<rparr> else s);
          s2 = (if echo e logtype
                then s1\<lparr>stdout := stdout s1 @
                       [if \<not> raw then ''['' @ upper logtype @ ''] '' @ message' else message']\<rparr>
                else s1)
      in case logfiles s2 logtype of
           None \<Rightarrow> s2
         | Some f \<Rightarrow> s2\<lparr>logfiles := (logfiles s2)(logtype \<mapsto> f @ [message' @ [CHR 0x0A]])\<rparr>)"

definition log_access :: "('g, 'u, 'a, 'r) env \<Rightarrow> string \<Rightarrow> bool
    \<Rightarrow> ('g, 'u, 'a, 'r) server \<Rightarrow> ('g, 'u, 'a, 'r) server" where
  "log_access e message raw s = server_log e ''access'' message raw s"

definition log_error :: "('g, 'u, 'a, 'r) env \<Rightarrow> string \<Rightarrow> bool
    \<Rightarrow> ('g, 'u, 'a, 'r) server \<Rightarrow> ('g, 'u, 'a, 'r) server" where
  "log_error e message raw s = server_log e ''error'' message raw s"

definition log_sys :: "('g, 'u, 'a, 'r) env \<Rightarrow> string \<Rightarrow> bool
    \<Rightarrow> ('g, 'u, 'a, 'r) server \<Rightarrow> ('g, 'u, 'a, 'r) server" where
  "log_sys e message raw s = server_log e ''sys'' message raw s"

text \<open>\<^verbatim>\<open>_shutdown\<close> (lines 270-274).\<close>

definition shutdown :: "('g, 'u, 'a, 'r) env \<Rightarrow> ('g, 'u, 'a, 'r) server \<Rightarrow> ('g, 'u, 'a, 'r) server" where
  "shutdown e s = (log_sys e ''Shut down.'' False s)\<lparr>logfiles_closed := True\<rparr>"

subsection \<open>Inner commands\<close>

text \<open>\<^verbatim>\<open>_execute_inner_command\<close> (lines 276-286): no \<^verbatim>\<open>try\<close> stands around \<^verbatim>\<open>sim\<close>.\<close>

definition execute_inner_command :: "('g, 'u, 'a, 'r) env \<Rightarrow> InnerCommands
    \<Rightarrow> ('g, 'u, 'a, 'r) server \<Rightarrow> unit outcome \<times> ('g, 'u, 'a, 'r) server" where
  "execute_inner_command e cmd s =
     (if cmd = Sim then
        (case sim e (game s) of
           (Raised x, g) \<Rightarrow> (Raised x, s\<lparr>game := g\<rparr>)
         | (Returned _, g) \<Rightarrow>
             (Returned (),
              log_sys e (''['' @ str_InnerCommands cmd @ ''] game time = '' @ get_time e g) False
                (s\<lparr>game := g\<rparr>)))
      else if cmd = Dump then
        (Returned (),
         log_sys e (''['' @ str_InnerCommands cmd @ ''] Dumped.'') False
           (log_sys e (''['' @ str_InnerCommands cmd @ ''] Dumping...'') False s))
      else
        (Returned (), log_sys e (''['' @ str_InnerCommands cmd @ ''] Unknown command'') False s))"

text \<open>\<^verbatim>\<open>_cron_fun\<close> (lines 330-334): the cron thread puts the dictionary on the queue.\<close>

definition cron_fun :: "InnerCommands \<Rightarrow> ('g, 'u, 'a, 'r) server \<Rightarrow> ('g, 'u, 'a, 'r) server" where
  "cron_fun cmd s = s\<lparr>request_queue := request_queue s @ [Inner_command cmd]\<rparr>"

subsection \<open>Client requests\<close>

text \<open>Lines 290-293: the user of the cookie, a new session when there is none, the renewal.\<close>

definition resolve_identity :: "('g, 'u, 'a, 'r) env \<Rightarrow> string \<Rightarrow> ('g, 'u, 'a, 'r) server
    \<Rightarrow> string \<times> 'u \<times> ('g, 'u, 'a, 'r) server" where
  "resolve_identity e cookie s =
     (case get_user_by_auth_cookie e cookie (game s) of
        None \<Rightarrow>
          (case create_new_session e (game s) of
             ((cookie', user), g) \<Rightarrow> (cookie', user, s\<lparr>game := renew_session e cookie' g\<rparr>))
      | Some user \<Rightarrow> (cookie, user, s\<lparr>game := renew_session e cookie (game s)\<rparr>))"

text \<open>\<^verbatim>\<open>self._controllers[m]\<close> for m one of GET and POST.\<close>

definition controllers :: "('g, 'u, 'a, 'r) server \<Rightarrow> string \<Rightarrow> ('g, 'u, 'a, 'r) controller" where
  "controllers s m = (if m = ''GET'' then get_controller s else post_controller s)"

text \<open>
  A \<^verbatim>\<open>str\<close> as \<^verbatim>\<open>controller_function\<close>: it has no \<^verbatim>\<open>is_public\<close>, and the call on it
  raises a TypeError, which derives from Exception.
\<close>

definition str_attribute :: "('g, 'u, 'a, 'r) env \<Rightarrow> string \<Rightarrow> ('g, 'u, 'a, 'r) controller_function" where
  "str_attribute e value =
     \<lparr>is_public = None,
      invoke = (\<lambda>a user cookie g.
        (Raised \<lparr>base = Exception, exc_name = ''TypeError'',
                 exc_value = fst (str_not_callable e value a),
                 trace_lines = snd (str_not_callable e value a)\<rparr>, g))\<rparr>"

text \<open>
  The two assignments of lines 315-316 on a controller. They make \<^verbatim>\<open>current_user\<close> and
  \<^verbatim>\<open>auth_cookie_value\<close> attributes of the object: from then on \<^verbatim>\<open>getattr\<close> (line 300)
  finds the user object and the cookie string under these names, whatever the class
  has there.
\<close>

definition assign_user :: "('g, 'u, 'a, 'r) env \<Rightarrow> 'u \<Rightarrow> string \<Rightarrow> ('g, 'u, 'a, 'r) controller
    \<Rightarrow> ('g, 'u, 'a, 'r) controller" where
  "assign_user e user cookie c =
     c\<lparr>attrs := (attrs c)(''current_user'' \<mapsto> user_attribute e user,
                             ''auth_cookie_value'' \<mapsto> str_attribute e cookie),
       current_user := Some user,
       controller_cookie := Some cookie\<rparr>"

definition set_controller_user :: "('g, 'u, 'a, 'r) env \<Rightarrow> string \<Rightarrow> 'u \<Rightarrow> string
    \<Rightarrow> ('g, 'u, 'a, 'r) server \<Rightarrow> ('g, 'u, 'a, 'r) server" where
  "set_controller_user e m user cookie s =
     (if m = ''GET''
      then s\<lparr>get_controller := assign_user e user cookie (get_controller s)\<rparr>
      else s\<lparr>post_controller := assign_user e user cookie (post_controller s)\<rparr>)"

text \<open>Lines 320-325: the handler of \<^verbatim>\<open>except Exception\<close>.\<close>

definition log_exception :: "('g, 'u, 'a, 'r) env \<Rightarrow> string \<Rightarrow> exc
    \<Rightarrow> ('g, 'u, 'a, 'r) server \<Rightarrow> ('g, 'u, 'a, 'r) server" where
  "log_exception e request_string x s =
     fold (\<lambda>trace_line. log_error e (''    '' @ rstrip trace_line) True) (trace_lines x)
       (log_error e (request_string @ '' ! '' @ exc_name x @ '': '' @ exc_value x) False s)"

text \<open>
  Lines 295-328, after the identity is resolved. \<^verbatim>\<open>except Exception\<close> catches what
  derives from Exception; a KeyboardInterrupt, a SystemExit or another BaseException
  leaves the function.
\<close>

definition dispatch :: "('g, 'u, 'a, 'r) env \<Rightarrow> string \<Rightarrow> string \<Rightarrow> 'a arguments \<Rightarrow> string
    \<Rightarrow> string \<Rightarrow> 'u \<Rightarrow> ('g, 'u, 'a, 'r) server
    \<Rightarrow> 'r response outcome \<times> ('g, 'u, 'a, 'r) server" where
  "dispatch e m cmd args cookie ip user s =
     (let request_string = create_request_string e m cmd args ip in
      if m \<notin> set [''GET'', ''POST''] then
        (Returned (Error_response ''Unknown method'' cookie),
         log_error e (request_string @ '' ! Unknown method'') False s)
      else
        case attrs (controllers s m) cmd of
          None \<Rightarrow>
            (Returned (Error_response ''Unknown command'' cookie),
             log_error e (request_string @ '' ! Unknown command'') False s)
        | Some f \<Rightarrow>
            (case args of
               ArgumentSyntaxError \<Rightarrow>
                 (Returned (Error_response ''Syntax error in arguments'' cookie),
                  log_error e (request_string @ '' ! Syntax error in arguments'') False s)
             | Parsed a \<Rightarrow>
                 if \<not> (case is_public f of None \<Rightarrow> False | Some b \<Rightarrow> b) \<and> is_guest e user (game s) then
                   (Returned (Error_response ''Access denied. You have to login.'' cookie),
                    log_error e (request_string @ '' ! Access denied. You have to login.'') False s)
                 else
                   (let s1 = set_controller_user e m user cookie s in
                    case invoke f a user cookie (game s1) of
                      (Raised x, g) \<Rightarrow>
                        if base x = Exception then
                          (Returned (Error_response (exc_name x @ '': '' @ exc_value x) cookie),
                           log_exception e request_string x (s1\<lparr>game := g\<rparr>))
                        else (Raised x, s1\<lparr>game := g\<rparr>)
                    | (Returned r, g) \<Rightarrow>
                        (Returned (Ok_response r cookie),
                         log_access e request_string False (s1\<lparr>game := g\<rparr>)))))"

text \<open>\<^verbatim>\<open>_execute_client_request\<close> (lines 288-328).\<close>

definition execute_client_request :: "('g, 'u, 'a, 'r) env \<Rightarrow> string \<Rightarrow> string \<Rightarrow> 'a arguments
    \<Rightarrow> string \<Rightarrow> string \<Rightarrow> ('g, 'u, 'a, 'r) server
    \<Rightarrow> 'r response outcome \<times> ('g, 'u, 'a, 'r) server" where
  "execute_client_request e m cmd args cookie ip s =
     (case resolve_identity e cookie s of
        (cookie', user, s') \<Rightarrow> dispatch e m cmd args cookie' ip user s')"

subsection \<open>The main loop\<close>

text \<open>
  The part of \<^verbatim>\<open>_get_response\<close> (lines 143-151) that the core sees: a new, empty reply
  queue and the request on the request queue.
\<close>

definition get_response_put :: "'a client_request \<Rightarrow> ('g, 'u, 'a, 'r) server
    \<Rightarrow> ('g, 'u, 'a, 'r) server" where
  "get_response_put r s =
     s\<lparr>reply_queues := (reply_queues s)(response_queue r := []),
       request_queue := request_queue s @ [Client_request r]\<rparr>"

text \<open>
  One pass through the body of \<^verbatim>\<open>while True\<close> (lines 249-263). An empty queue is the
  \<^verbatim>\<open>queue.Empty\<close> of the timeout. \<^verbatim>\<open>task_done\<close> and the \<^verbatim>\<open>del\<close> of line 262 have no
  effect that the code reads.
\<close>

definition loop_body :: "('g, 'u, 'a, 'r) env \<Rightarrow> ('g, 'u, 'a, 'r) server
    \<Rightarrow> unit outcome \<times> ('g, 'u, 'a, 'r) server" where
  "loop_body e s =
     (case request_queue s of
        [] \<Rightarrow> (Returned (), s)
      | request # rest \<Rightarrow>
          (let s0 = s\<lparr>request_queue := rest\<rparr> in
           case request of
             Inner_command cmd \<Rightarrow> execute_inner_command e cmd s0
           | Client_request r \<Rightarrow>
               (case execute_client_request e (req_method r) (command r) (arguments r)
                       (auth_cookie_value r) (client_ip r) s0 of
                  (Raised x, s1) \<Rightarrow> (Raised x, s1)
                | (Returned response, s1) \<Rightarrow>
                    (Returned (),
                     s1\<lparr>reply_queues := (reply_queues s1)
                          (response_queue r := reply_queues s1 (response_queue r) @ [response])\<rparr>))))"

text \<open>
  How an exception leaves \<^verbatim>\<open>serve_forever\<close> (lines 264-268): KeyboardInterrupt and
  SystemExit are logged and the function returns, any other exception goes on to the
  caller; the \<^verbatim>\<open>finally\<close> clause runs in both cases.
\<close>

definition leave_loop :: "('g, 'u, 'a, 'r) env \<Rightarrow> exc \<Rightarrow> ('g, 'u, 'a, 'r) server
    \<Rightarrow> unit outcome \<times> ('g, 'u, 'a, 'r) server" where
  "leave_loop e x s =
     (if base x = KeyboardInterrupt \<or> base x = SystemExit then
        (Returned (), shutdown e ((log_sys e ''Shutting down...'' False s)\<lparr>http_running := False\<rparr>))
      else (Raised x, shutdown e (s\<lparr>http_running := False\<rparr>)))"

text \<open>
  What the other threads and the operating system do while \<^verbatim>\<open>serve_forever\<close> runs: the
  cron thread calls \<^verbatim>\<open>_cron_fun\<close>, a request thread puts its request, the main thread
  starts the next pass of the loop, or an exception (the KeyboardInterrupt of a
  signal) is raised in the main thread while it waits for the queue.
\<close>

datatype 'a event = Cron InnerCommands | Submit "'a client_request" | Pass | Interrupt exc

text \<open>
  \<^verbatim>\<open>serve_forever\<close> (lines 245-268) along a finite schedule. The loop has no exit but an
  exception: the result is None while the loop still runs at the end of the schedule,
  and how the function was left otherwise.
\<close>

fun serve_forever :: "('g, 'u, 'a, 'r) env \<Rightarrow> 'a event list \<Rightarrow> ('g, 'u, 'a, 'r) server
    \<Rightarrow> unit outcome option \<times> ('g, 'u, 'a, 'r) server" where
  "serve_forever e [] s = (None, s)"
| "serve_forever e (Cron cmd # evs) s = serve_forever e evs (cron_fun cmd s)"
| "serve_forever e (Submit r # evs) s = serve_forever e evs (get_response_put r s)"
| "serve_forever e (Interrupt x # evs) s = (case leave_loop e x s of (res, s') \<Rightarrow> (Some res, s'))"
| "serve_forever e (Pass # evs) s =
     (case loop_body e s of
        (Returned _, s') \<Rightarrow> serve_forever e evs s'
      | (Raised x, s') \<Rightarrow> (case leave_loop e x s' of (res, s'') \<Rightarrow> (Some res, s'')))"

subsection \<open>Start of the process\<close>

text \<open>The values of \<^verbatim>\<open>errno.EACCES\<close> and \<^verbatim>\<open>errno.EADDRINUSE\<close> (Linux).\<close>

definition EACCES :: int where
  "EACCES = 13"

definition EADDRINUSE :: int where
  "EADDRINUSE = 98"

text \<open>
  The constructor \<^verbatim>\<open>ZandagortServer(host, port)\<close> binds the listening socket (line 224,
  through \<^verbatim>\<open>HTTPServer.__init__\<close>): it returns the server or raises a socket error with
  an errno.
\<close>

datatype 'srv constructed = Server 'srv | Socket_error int

text \<open>How \<^verbatim>\<open>main\<close> ends: it returns, or the socket error of the constructor or an
  exception of \<^verbatim>\<open>serve_forever\<close> goes on, or \<^verbatim>\<open>serve_forever\<close> still runs.\<close>

datatype main_end = Main_returned | Main_socket_error int | Main_raised exc | Main_serving

text \<open>\<^verbatim>\<open>start\<close> (lines 239-243), without the two threads it starts.\<close>

definition start :: "('g, 'u, 'a, 'r) env \<Rightarrow> string \<Rightarrow> int \<Rightarrow> ('g, 'u, 'a, 'r) server
    \<Rightarrow> ('g, 'u, 'a, 'r) server" where
  "start e host port s = log_sys e (''Listening at '' @ host @ '':'' @ str_int port @ ''...'') False s"

definition print :: "string \<Rightarrow> ('g, 'u, 'a, 'r) server \<Rightarrow> ('g, 'u, 'a, 'r) server" where
  "print line s = s\<lparr>stdout := stdout s @ [line]\<rparr>"

text \<open>
  \<^verbatim>\<open>main\<close> (lines 361-377). The result is how main ends, what the process printed, and
  the state of the server when one was started (None when \<^verbatim>\<open>server.start()\<close> was never
  called). The lines printed before the server exists are the first component alone.
\<close>

definition main :: "('g, 'u, 'a, 'r) env \<Rightarrow> string \<Rightarrow> int \<Rightarrow> ('g, 'u, 'a, 'r) server constructed
    \<Rightarrow> 'a event list \<Rightarrow> main_end \<times> string list \<times> ('g, 'u, 'a, 'r) server option" where
  "main e SERVER_HOST SERVER_PORT constructor schedule =
     (let printed = [''Launching Zandagort Server...''] in
      case constructor of
        Socket_error errno \<Rightarrow>
          if errno = EACCES then
            (Main_returned,
             printed @ [''[ERROR] port '' @ str_int SERVER_PORT @ '' already used by some other service.'',
                        ''Change it in config.py''],
             None)
          else (Main_socket_error errno, printed, None)
      | Server server \<Rightarrow>
          (let s1 = print ''Zandagort Server launched.''
                      (start e SERVER_HOST SERVER_PORT (server\<lparr>stdout := printed @ stdout server\<rparr>))
           in case serve_forever e schedule s1 of
                (None, s2) \<Rightarrow> (Main_serving, stdout s2, Some s2)
              | (Some (Raised x), s2) \<Rightarrow> (Main_raised x, stdout s2, Some s2)
              | (Some (Returned _), s2) \<Rightarrow>
                  (let s3 = print ''Zandagort Server shut down.'' s2
                   in (Main_returned, stdout s3, Some s3))))"

subsection \<open>A small server to evaluate the model on\<close>

text \<open>
  The game is its time, a user is a name, the arguments are a list of pairs and a
  response is a string. One cookie belongs to alice; a new session is a guest's. The
  controllers have a public handler, a handler without \<^verbatim>\<open>is_public\<close>, a handler that
  raises a ValueError and one that raises SystemExit.
\<close>

definition not_callable :: exc where
  "not_callable =
     \<lparr>base = Exception, exc_name = ''TypeError'', exc_value = ''User object is not callable'',
      trace_lines = []\<rparr>"

definition demo_env :: "(nat, string, (string \<times> string) list, string) env" where
  "demo_env =
     \<lparr>SERVER_LOG_STDOUT = [''sys'' \<mapsto> True, ''error'' \<mapsto> False],
      now = (\<lambda>n. ''T'' @ str_nat n),
      sim = (\<lambda>g. (Returned (), Suc g)),
      get_time = str_nat,
      get_user_by_auth_cookie = (\<lambda>cookie g. if cookie = ''alice-cookie'' then Some ''alice'' else None),
      create_new_session = (\<lambda>g. ((''guest-cookie'', ''guest''), g)),
      renew_session = (\<lambda>cookie g. g),
      is_guest = (\<lambda>user g. user = ''guest''),
      create_request_string = (\<lambda>m cmd args ip. m @ '' '' @ cmd @ '' '' @ ip),
      user_attribute = (\<lambda>user. \<lparr>is_public = None,
                                 invoke = (\<lambda>a u cookie g. (Raised not_callable, g))\<rparr>),
      str_not_callable = (\<lambda>value a. (''str object is not callable'', []))\<rparr>"

definition value_error :: exc where
  "value_error =
     \<lparr>base = Exception, exc_name = ''ValueError'', exc_value = ''bad amount'',
      trace_lines = [''Traceback (most recent call last):'' @ [CHR 0x0A],
                     ''ValueError: bad amount'' @ [CHR 0x0A]]\<rparr>"

definition system_exit :: exc where
  "system_exit = \<lparr>base = SystemExit, exc_name = ''SystemExit'', exc_value = ''0'', trace_lines = []\<rparr>"

definition demo_controller :: "(nat, string, (string \<times> string) list, string) controller" where
  "demo_controller =
     \<lparr>attrs =
        [''whoami'' \<mapsto> \<lparr>is_public = Some True, invoke = (\<lambda>a user cookie g. (Returned user, g))\<rparr>,
         ''build'' \<mapsto> \<lparr>is_public = None, invoke = (\<lambda>a user cookie g. (Returned ''built'', g))\<rparr>,
         ''pay'' \<mapsto> \<lparr>is_public = Some True, invoke = (\<lambda>a user cookie g. (Raised value_error, g))\<rparr>,
         ''quit'' \<mapsto> \<lparr>is_public = Some True, invoke = (\<lambda>a user cookie g. (Raised system_exit, g))\<rparr>],
      current_user = None,
      controller_cookie = None\<rparr>"

definition demo_server :: "(nat, string, (string \<times> string) list, string) server" where
  "demo_server =
     \<lparr>game = 0,
      request_queue = [],
      get_controller = demo_controller,
      post_controller = demo_controller,
      logfiles = [''access'' \<mapsto> [], ''error'' \<mapsto> [], ''sys'' \<mapsto> []],
      stdout = [],
      clock = 0,
      reply_queues = (\<lambda>q. []),
      http_running = True,
      logfiles_closed = False\<rparr>"

text \<open>The same environment with a \<^verbatim>\<open>sim\<close> that raises a ValueError.\<close>

definition failing_sim_env :: "(nat, string, (string \<times> string) list, string) env" where
  "failing_sim_env = demo_env\<lparr>sim := (\<lambda>g. (Raised value_error, g))\<rparr>"

definition demo_request :: "string \<Rightarrow> (string \<times> string) list arguments \<Rightarrow> string
    \<Rightarrow> (string \<times> string) list client_request" where
  "demo_request cmd args cookie =
     \<lparr>response_queue = 7, req_method = ''GET'', command = cmd, arguments = args,
      auth_cookie_value = cookie, client_ip = ''10.0.0.1''\<rparr>"

section \<open>Properties\<close>

subsection \<open>What a log call changes\<close>

lemma server_log_frame:
  "game (server_log e t m raw s) = game s"
  "request_queue (server_log e t m raw s) = request_queue s"
  "get_controller (server_log e t m raw s) = get_controller s"
  "post_controller (server_log e t m raw s) = post_controller s"
  "reply_queues (server_log e t m raw s) = reply_queues s"
  "http_running (server_log e t m raw s) = http_running s"
  "logfiles_closed (server_log e t m raw s) = logfiles_closed s"
  by (simp_all add: server_log_def Let_def split: option.splits)

lemma server_log_only_sinks:
  "(server_log e t m raw s)\<lparr>logfiles := logfiles s, stdout := stdout s, clock := clock s\<rparr> = s"
  by (simp add: server_log_def Let_def split: option.splits)

lemma server_log_logfiles_other:
  "k \<noteq> t \<Longrightarrow> logfiles (server_log e t m raw s) k = logfiles s k"
  by (simp add: server_log_def Let_def split: option.splits)

lemma server_log_logfiles_same:
  "logfiles (server_log e t m raw s) t =
     map_option (\<lambda>f. f @ [(if raw then m else now e (clock s) @ '' '' @ m) @ [CHR 0x0A]]) (logfiles s t)"
  by (simp add: server_log_def Let_def split: option.splits)

lemma server_log_clock:
  "clock (server_log e t m raw s) = (if raw then clock s else Suc (clock s))"
  by (simp add: server_log_def Let_def split: option.splits)

lemma log_sys_frame:
  "game (log_sys e m raw s) = game s"
  "request_queue (log_sys e m raw s) = request_queue s"
  "get_controller (log_sys e m raw s) = get_controller s"
  "post_controller (log_sys e m raw s) = post_controller s"
  "reply_queues (log_sys e m raw s) = reply_queues s"
  "http_running (log_sys e m raw s) = http_running s"
  "logfiles_closed (log_sys e m raw s) = logfiles_closed s"
  by (simp_all add: log_sys_def server_log_frame)

lemma log_sys_only_sinks:
  "(log_sys e m raw s)\<lparr>logfiles := logfiles s, stdout := stdout s, clock := clock s\<rparr> = s"
  by (simp add: log_sys_def server_log_only_sinks)

lemma log_sys_logfiles:
  "logfiles (log_sys e m False s) k =
     (if k = ''sys'' then map_option (\<lambda>f. f @ [now e (clock s) @ '' '' @ m @ [CHR 0x0A]]) (logfiles s k)
      else logfiles s k)"
  using server_log_logfiles_same [of e "''sys''" m False s]
    server_log_logfiles_other [of k "''sys''" e m False s]
  by (simp add: log_sys_def)

lemma log_sys_clock: "clock (log_sys e m False s) = Suc (clock s)"
  by (simp add: log_sys_def server_log_clock)

lemma sinks_twice:
  fixes s :: "('g, 'u, 'a, 'r) server"
  assumes "s2\<lparr>logfiles := logfiles s1, stdout := stdout s1, clock := clock s1\<rparr> = s1"
    and "s1\<lparr>logfiles := logfiles s, stdout := stdout s, clock := clock s\<rparr> = s"
  shows "s2\<lparr>logfiles := logfiles s, stdout := stdout s, clock := clock s\<rparr> = s"
proof -
  have "s2\<lparr>logfiles := logfiles s, stdout := stdout s, clock := clock s\<rparr>
      = (s2\<lparr>logfiles := logfiles s1, stdout := stdout s1, clock := clock s1\<rparr>)
          \<lparr>logfiles := logfiles s, stdout := stdout s, clock := clock s\<rparr>"
    by simp
  then show ?thesis using assms by simp
qed

lemmas demo_defs = demo_env_def not_callable_def demo_server_def demo_controller_def demo_request_def
  value_error_def system_exit_def

subsection \<open>The flat query dictionary\<close>

lemma dict_set_fresh: "k \<notin> fst ` set d \<Longrightarrow> dict_set d k v = d @ [(k, v)]"
  by (induction d) auto

lemma flatten_items_distinct:
  "distinct (map fst items) \<Longrightarrow> fst ` set items \<inter> fst ` set acc = {} \<Longrightarrow>
   \<forall>(k, vs) \<in> set items. vs \<noteq> [] \<Longrightarrow>
   flatten_items items acc = Inr (acc @ map (\<lambda>(k, vs). (k, hd vs)) items)"
proof (induction items arbitrary: acc)
  case Nil
  then show ?case by simp
next
  case (Cons it items)
  obtain k vs where it: "it = (k, vs)" by (cases it)
  from Cons.prems it obtain v vs' where vs: "vs = v # vs'" by (cases vs) auto
  have fresh: "k \<notin> fst ` set acc" using Cons.prems it by auto
  have "flatten_items (it # items) acc = flatten_items items (acc @ [(k, v)])"
    using it vs fresh by (simp add: dict_set_fresh)
  also have "\<dots> = Inr ((acc @ [(k, v)]) @ map (\<lambda>(k, vs). (k, hd vs)) items)"
    using Cons.prems it by (intro Cons.IH) auto
  finally show ?case using it vs by simp
qed

lemma flatten_items_empty_value:
  "(k, []) \<in> set items \<Longrightarrow> flatten_items items acc = Inl IndexError"
  by (induction items arbitrary: acc) (auto split: list.splits)

text \<open>
  C10. For every query string, \<^verbatim>\<open>_parse_qs_flat\<close> maps each key of the dictionary that
  \<^verbatim>\<open>parse_qs\<close> returns to the first value of the key's list, a single string and never
  a list. A dictionary has each key once, and \<^verbatim>\<open>parse_qs\<close> gives no key an empty list.
  For \<^verbatim>\<open>q=a&q=b\<close>, where \<^verbatim>\<open>parse_qs\<close> returns the list a, b for q, the value of q is a.
\<close>

theorem parse_qs_flat_first_value:
  assumes "distinct (map fst (parse_qs query))"
    and "\<forall>(key, deep_value) \<in> set (parse_qs query). deep_value \<noteq> []"
  shows "parse_qs_flat parse_qs query =
           Inr (map (\<lambda>(key, deep_value). (key, hd deep_value)) (parse_qs query))"
  using flatten_items_distinct [of "parse_qs query" "[]"] assms
  by (simp add: parse_qs_flat_def)

theorem parse_qs_flat_first_value_witness:
  "parse_qs_flat (\<lambda>query. [(''q'', [''a'', ''b'']), (''r'', [''c''])]) ''q=a&q=b&r=c''
     = Inr [(''q'', ''a''), (''r'', ''c'')]"
  using parse_qs_flat_first_value
    [of "\<lambda>query. [(''q'', [''a'', ''b'']), (''r'', [''c''])]" "''q=a&q=b&r=c''"]
  by simp

subsection \<open>Inner commands\<close>

text \<open>
  C8. Executing Dump leaves the game unchanged and produces no reply: nothing but the
  log sinks (the log files, standard output and the clock that stamps the lines)
  differs afterwards, and the system log has the two lines Dumping... and Dumped.
  Executing Sim calls the game's \<^verbatim>\<open>sim\<close> once, and when it returns, the game is the one
  it produced and the system log has a line with the new game time.
\<close>

theorem dump_logs_only_sim_advances:
  "(\<exists>s'. execute_inner_command e Dump s = (Returned (), s')
        \<and> game s' = game s
        \<and> reply_queues s' = reply_queues s
        \<and> s'\<lparr>logfiles := logfiles s, stdout := stdout s, clock := clock s\<rparr> = s
        \<and> logfiles s' ''sys'' =
            map_option (\<lambda>f. f @ [now e (clock s) @ '' [InnerCommands.Dump] Dumping...'' @ [CHR 0x0A],
                                 now e (Suc (clock s)) @ '' [InnerCommands.Dump] Dumped.'' @ [CHR 0x0A]])
              (logfiles s ''sys''))
   \<and> game (snd (execute_inner_command e Sim s)) = snd (sim e (game s))
   \<and> (sim e (game s) = (Returned (), g) \<longrightarrow>
        (\<exists>s'. execute_inner_command e Sim s = (Returned (), s')
           \<and> game s' = g
           \<and> reply_queues s' = reply_queues s
           \<and> s'\<lparr>game := game s, logfiles := logfiles s, stdout := stdout s, clock := clock s\<rparr> = s
           \<and> logfiles s' ''sys'' =
               map_option (\<lambda>f. f @ [now e (clock s) @ '' [InnerCommands.Sim] game time = '' @ get_time e g @ [CHR 0x0A]])
                 (logfiles s ''sys'')))"
proof (intro conjI impI)
  let ?s1 = "log_sys e ''[InnerCommands.Dump] Dumping...'' False s"
  let ?s2 = "log_sys e ''[InnerCommands.Dump] Dumped.'' False ?s1"
  have run: "execute_inner_command e Dump s = (Returned (), ?s2)"
    by (simp add: execute_inner_command_def)
  have sinks: "?s2\<lparr>logfiles := logfiles s, stdout := stdout s, clock := clock s\<rparr> = s"
    by (rule sinks_twice [OF log_sys_only_sinks log_sys_only_sinks])
  have files: "logfiles ?s2 ''sys'' =
      map_option (\<lambda>f. f @ [now e (clock s) @ '' [InnerCommands.Dump] Dumping...'' @ [CHR 0x0A],
                           now e (Suc (clock s)) @ '' [InnerCommands.Dump] Dumped.'' @ [CHR 0x0A]])
        (logfiles s ''sys'')"
    by (cases "logfiles s ''sys''") (simp_all add: log_sys_logfiles log_sys_clock)
  show "\<exists>s'. execute_inner_command e Dump s = (Returned (), s')
        \<and> game s' = game s
        \<and> reply_queues s' = reply_queues s
        \<and> s'\<lparr>logfiles := logfiles s, stdout := stdout s, clock := clock s\<rparr> = s
        \<and> logfiles s' ''sys'' =
            map_option (\<lambda>f. f @ [now e (clock s) @ '' [InnerCommands.Dump] Dumping...'' @ [CHR 0x0A],
                                 now e (Suc (clock s)) @ '' [InnerCommands.Dump] Dumped.'' @ [CHR 0x0A]])
              (logfiles s ''sys'')"
    using run sinks files by (simp add: log_sys_frame)
next
  show "game (snd (execute_inner_command e Sim s)) = snd (sim e (game s))"
    by (cases "sim e (game s)") (simp add: execute_inner_command_def log_sys_frame split: outcome.splits)
next
  assume ok: "sim e (game s) = (Returned (), g)"
  let ?s1 = "log_sys e (''[InnerCommands.Sim] game time = '' @ get_time e g) False (s\<lparr>game := g\<rparr>)"
  have run: "execute_inner_command e Sim s = (Returned (), ?s1)"
    using ok by (simp add: execute_inner_command_def)
  have sinks: "?s1\<lparr>game := game s, logfiles := logfiles s, stdout := stdout s, clock := clock s\<rparr> = s"
    by (simp add: log_sys_def server_log_def Let_def split: option.splits)
  show "\<exists>s'. execute_inner_command e Sim s = (Returned (), s')
           \<and> game s' = g
           \<and> reply_queues s' = reply_queues s
           \<and> s'\<lparr>game := game s, logfiles := logfiles s, stdout := stdout s, clock := clock s\<rparr> = s
           \<and> logfiles s' ''sys'' =
               map_option (\<lambda>f. f @ [now e (clock s) @ '' [InnerCommands.Sim] game time = '' @ get_time e g @ [CHR 0x0A]])
                 (logfiles s ''sys'')"
    using run sinks by (simp add: log_sys_frame log_sys_logfiles)
qed

theorem dump_logs_only_sim_advances_witness:
  "sim demo_env (game demo_server) = (Returned (), 1)
   \<and> game (snd (execute_inner_command demo_env Sim demo_server)) = 1
   \<and> logfiles (snd (execute_inner_command demo_env Sim demo_server)) ''sys''
       = Some [''T0 [InnerCommands.Sim] game time = 1'' @ [CHR 0x0A]]"
proof -
  have h: "sim demo_env (game demo_server) = (Returned (), 1)"
    by (simp add: demo_env_def demo_server_def)
  from dump_logs_only_sim_advances [of demo_env demo_server 1] h
  obtain s' where "execute_inner_command demo_env Sim demo_server = (Returned (), s')"
    and "game s' = 1"
    and "logfiles s' ''sys'' =
           map_option (\<lambda>f. f @ [now demo_env (clock demo_server) @ '' [InnerCommands.Sim] game time = ''
               @ get_time demo_env 1 @ [CHR 0x0A]]) (logfiles demo_server ''sys'')"
    by blast
  then show ?thesis
    using h by (simp add: demo_env_def demo_server_def str_nat.simps digit_char_def)
qed

lemma execute_inner_command_frame:
  "reply_queues (snd (execute_inner_command e cmd t)) = reply_queues t"
  "request_queue (snd (execute_inner_command e cmd t)) = request_queue t"
  "get_controller (snd (execute_inner_command e cmd t)) = get_controller t"
  "post_controller (snd (execute_inner_command e cmd t)) = post_controller t"
  by (cases "sim e (game t)"; simp add: execute_inner_command_def log_sys_frame split: outcome.splits)+

text \<open>
  C9. What \<^verbatim>\<open>_cron_fun\<close> enqueues is an inner-command item that carries the command
  name and nothing else (no reply queue). It changes the request queue only and does
  not read the game: it commutes with any change of the game. When the main loop takes
  such an item from the queue it executes the inner command, and no reply queue
  changes.
\<close>

theorem cron_fun_only_enqueues:
  "request_queue (cron_fun cmd s) = request_queue s @ [Inner_command cmd]
   \<and> (cron_fun cmd s)\<lparr>request_queue := request_queue s\<rparr> = s
   \<and> cron_fun cmd (s\<lparr>game := g\<rparr>) = (cron_fun cmd s)\<lparr>game := g\<rparr>
   \<and> (request_queue s = [] \<longrightarrow> loop_body e (cron_fun cmd s) = execute_inner_command e cmd s)
   \<and> (request_queue s = Inner_command cmd # rest \<longrightarrow>
        loop_body e s = execute_inner_command e cmd (s\<lparr>request_queue := rest\<rparr>)
        \<and> reply_queues (snd (loop_body e s)) = reply_queues s
        \<and> request_queue (snd (loop_body e s)) = rest)"
proof (intro conjI impI)
  show "request_queue (cron_fun cmd s) = request_queue s @ [Inner_command cmd]"
    by (simp add: cron_fun_def)
  show "(cron_fun cmd s)\<lparr>request_queue := request_queue s\<rparr> = s"
    by (simp add: cron_fun_def)
  show "cron_fun cmd (s\<lparr>game := g\<rparr>) = (cron_fun cmd s)\<lparr>game := g\<rparr>"
    by (simp add: cron_fun_def)
next
  assume empty: "request_queue s = []"
  then have same: "s\<lparr>request_queue := []\<rparr> = s"
    by simp
  have "loop_body e (cron_fun cmd s) = execute_inner_command e cmd (s\<lparr>request_queue := []\<rparr>)"
    using empty by (simp add: cron_fun_def loop_body_def)
  then show "loop_body e (cron_fun cmd s) = execute_inner_command e cmd s"
    by (simp only: same)
next
  assume head: "request_queue s = Inner_command cmd # rest"
  show body: "loop_body e s = execute_inner_command e cmd (s\<lparr>request_queue := rest\<rparr>)"
    using head by (simp add: loop_body_def)
  show "reply_queues (snd (loop_body e s)) = reply_queues s"
    by (simp add: body execute_inner_command_frame)
  show "request_queue (snd (loop_body e s)) = rest"
    by (simp add: body execute_inner_command_frame)
qed

theorem cron_fun_only_enqueues_witness:
  "request_queue (cron_fun Sim demo_server) = [Inner_command Sim]
   \<and> game (cron_fun Sim demo_server) = 0
   \<and> fst (loop_body demo_env (cron_fun Sim demo_server)) = Returned ()
   \<and> game (snd (loop_body demo_env (cron_fun Sim demo_server))) = 1
   \<and> reply_queues (snd (loop_body demo_env (cron_fun Sim demo_server))) = (\<lambda>q. [])
   \<and> request_queue (snd (loop_body demo_env (cron_fun Sim demo_server))) = []"
proof -
  have q: "request_queue (cron_fun Sim demo_server) = Inner_command Sim # []"
    by (simp add: cron_fun_def demo_server_def)
  have "loop_body demo_env (cron_fun Sim demo_server)
          = execute_inner_command demo_env Sim ((cron_fun Sim demo_server)\<lparr>request_queue := []\<rparr>)
        \<and> reply_queues (snd (loop_body demo_env (cron_fun Sim demo_server)))
          = reply_queues (cron_fun Sim demo_server)
        \<and> request_queue (snd (loop_body demo_env (cron_fun Sim demo_server))) = []"
    using cron_fun_only_enqueues [of Sim "cron_fun Sim demo_server" 0 demo_env "[]"] q by blast
  then show ?thesis
    using q by (simp add: cron_fun_def demo_server_def demo_env_def execute_inner_command_def
        log_sys_frame)
qed

subsection \<open>Start of the process\<close>

text \<open>
  C7. A socket error of the constructor ends \<^verbatim>\<open>main\<close> before the server is started,
  whatever the errno. With the errno of "address already in use" (EADDRINUSE) the
  error goes on to the caller and no message is printed; the message that names the
  port and says it is already used is printed for EACCES, "permission denied", which
  is the constant line 368 compares with.
\<close>

theorem main_bind_failure:
  "snd (snd (main e host port (Socket_error errno) schedule)) = None
   \<and> main e host port (Socket_error EADDRINUSE) schedule =
       (Main_socket_error EADDRINUSE, [''Launching Zandagort Server...''], None)
   \<and> main e host port (Socket_error EACCES) schedule =
       (Main_returned,
        [''Launching Zandagort Server...'',
         ''[ERROR] port '' @ str_int port @ '' already used by some other service.'',
         ''Change it in config.py''],
        None)"
  by (simp add: main_def EACCES_def EADDRINUSE_def Let_def)

subsection \<open>Client requests\<close>

text \<open>
  C3, as the code has it. A request whose arguments are the ArgumentSyntaxError marker
  gets, with the cookie of the resolved identity: "Unknown method" when the method is
  neither GET nor POST, "Unknown command" when the controller of the method has no
  attribute of the command's name, and "Syntax error in arguments" otherwise. The
  command is resolved before the marker is looked at; the line in the error log is
  the request string with the problem. The attributes are those of the controller at
  the time of the request: a method, or \<^verbatim>\<open>current_user\<close> and \<^verbatim>\<open>auth_cookie_value\<close> once
  an earlier request has assigned them.
\<close>

theorem syntax_error_after_resolution:
  "execute_client_request e m cmd ArgumentSyntaxError cookie ip s =
     (case resolve_identity e cookie s of
        (cookie', user, s') \<Rightarrow>
          (let problem =
                 (if m \<notin> set [''GET'', ''POST''] then ''Unknown method''
                  else if attrs (controllers s m) cmd = None then ''Unknown command''
                  else ''Syntax error in arguments'')
           in (Returned (Error_response problem cookie'),
               log_error e (create_request_string e m cmd ArgumentSyntaxError ip @ '' ! '' @ problem)
                 False s')))"
proof -
  obtain cookie' user s' where r: "resolve_identity e cookie s = (cookie', user, s')"
    by (cases "resolve_identity e cookie s") auto
  have same: "controllers s' m = controllers s m"
    using r by (auto simp: resolve_identity_def controllers_def split: option.splits prod.splits)
  show ?thesis
    using r same by (auto simp: execute_client_request_def dispatch_def Let_def split: option.splits)
qed

text \<open>
  On the small server: the name \<^verbatim>\<open>current_user\<close> does not resolve at the start and
  resolves after a request of alice was handled; PUT is no method.
\<close>

theorem syntax_error_after_resolution_witness:
  "fst (execute_client_request demo_env ''GET'' ''current_user'' ArgumentSyntaxError ''alice-cookie''
          ''10.0.0.1'' demo_server)
     = Returned (Error_response ''Unknown command'' ''alice-cookie'')
   \<and> fst (execute_client_request demo_env ''GET'' ''current_user'' ArgumentSyntaxError ''alice-cookie''
          ''10.0.0.1''
          (snd (execute_client_request demo_env ''GET'' ''whoami'' (Parsed []) ''alice-cookie''
                  ''10.0.0.1'' demo_server)))
     = Returned (Error_response ''Syntax error in arguments'' ''alice-cookie'')
   \<and> fst (execute_client_request demo_env ''PUT'' ''whoami'' ArgumentSyntaxError ''alice-cookie''
          ''10.0.0.1'' demo_server)
     = Returned (Error_response ''Unknown method'' ''alice-cookie'')"
proof -
  let ?s1 = "snd (execute_client_request demo_env ''GET'' ''whoami'' (Parsed []) ''alice-cookie''
                  ''10.0.0.1'' demo_server)"
  have r: "fst (resolve_identity demo_env ''alice-cookie'' s) = ''alice-cookie''" for s
    by (simp add: resolve_identity_def demo_env_def)
  have before: "attrs (controllers demo_server ''GET'') ''current_user'' = None"
    by (simp add: controllers_def demo_server_def demo_controller_def)
  have after: "attrs (controllers ?s1 ''GET'') ''current_user'' \<noteq> None"
    by (simp add: execute_client_request_def resolve_identity_def dispatch_def demo_defs
        controllers_def Let_def set_controller_user_def assign_user_def log_access_def
        server_log_frame)
  show ?thesis
    using syntax_error_after_resolution [of demo_env "''GET''" "''current_user''" "''alice-cookie''"
        "''10.0.0.1''" demo_server]
      syntax_error_after_resolution [of demo_env "''GET''" "''current_user''" "''alice-cookie''"
        "''10.0.0.1''" ?s1]
      syntax_error_after_resolution [of demo_env "''PUT''" "''whoami''" "''alice-cookie''"
        "''10.0.0.1''" demo_server]
      before after r [of demo_server] r [of ?s1]
    by (simp add: split_beta Let_def)
qed

text \<open>
  C3 as stated fails for a command that does not resolve: with marker arguments the
  response is "Unknown command", not the syntax error.
\<close>

theorem syntax_error_unknown_command_counterexample:
  "fst (execute_client_request demo_env ''GET'' ''nosuch'' ArgumentSyntaxError ''alice-cookie''
          ''10.0.0.1'' demo_server)
     = Returned (Error_response ''Unknown command'' ''alice-cookie'')"
  by (simp add: execute_client_request_def resolve_identity_def dispatch_def demo_defs
      controllers_def Let_def)

subsection \<open>What the execution of a client request changes\<close>

lemma resolve_identity_frame:
  assumes "resolve_identity e cookie s = (cookie', user, s')"
  shows "s'\<lparr>game := game s\<rparr> = s"
    and "cookie' = (case get_user_by_auth_cookie e cookie (game s) of
                      None \<Rightarrow> fst (fst (create_new_session e (game s)))
                    | Some u \<Rightarrow> cookie)"
    and "user = (case get_user_by_auth_cookie e cookie (game s) of
                   None \<Rightarrow> snd (fst (create_new_session e (game s)))
                 | Some u \<Rightarrow> u)"
    and "game s' = renew_session e cookie'
                     (case get_user_by_auth_cookie e cookie (game s) of
                        None \<Rightarrow> snd (create_new_session e (game s))
                      | Some u \<Rightarrow> game s)"
  using assms
  by (auto simp: resolve_identity_def split: option.splits prod.splits)

lemma resolve_identity_fields:
  assumes "resolve_identity e cookie s = (cookie', user, s')"
  shows "request_queue s' = request_queue s" "get_controller s' = get_controller s"
    "post_controller s' = post_controller s" "logfiles s' = logfiles s" "stdout s' = stdout s"
    "clock s' = clock s" "reply_queues s' = reply_queues s" "http_running s' = http_running s"
    "logfiles_closed s' = logfiles_closed s" "controllers s' m = controllers s m"
  using assms
  by (auto simp: resolve_identity_def controllers_def split: option.splits prod.splits)

lemma log_error_frame:
  "game (log_error e m raw s) = game s"
  "request_queue (log_error e m raw s) = request_queue s"
  "get_controller (log_error e m raw s) = get_controller s"
  "post_controller (log_error e m raw s) = post_controller s"
  "reply_queues (log_error e m raw s) = reply_queues s"
  "http_running (log_error e m raw s) = http_running s"
  "logfiles_closed (log_error e m raw s) = logfiles_closed s"
  by (simp_all add: log_error_def server_log_frame)

lemma log_access_frame:
  "game (log_access e m raw s) = game s"
  "request_queue (log_access e m raw s) = request_queue s"
  "get_controller (log_access e m raw s) = get_controller s"
  "post_controller (log_access e m raw s) = post_controller s"
  "reply_queues (log_access e m raw s) = reply_queues s"
  "http_running (log_access e m raw s) = http_running s"
  "logfiles_closed (log_access e m raw s) = logfiles_closed s"
  by (simp_all add: log_access_def server_log_frame)

lemma fold_raw_frame:
  "game (fold (\<lambda>l. server_log e t (p l) True) ls s) = game s"
  "request_queue (fold (\<lambda>l. server_log e t (p l) True) ls s) = request_queue s"
  "get_controller (fold (\<lambda>l. server_log e t (p l) True) ls s) = get_controller s"
  "post_controller (fold (\<lambda>l. server_log e t (p l) True) ls s) = post_controller s"
  "reply_queues (fold (\<lambda>l. server_log e t (p l) True) ls s) = reply_queues s"
  "http_running (fold (\<lambda>l. server_log e t (p l) True) ls s) = http_running s"
  "logfiles_closed (fold (\<lambda>l. server_log e t (p l) True) ls s) = logfiles_closed s"
  by (induction ls arbitrary: s; simp add: server_log_frame)+

lemma fold_raw_logfiles_same:
  "logfiles (fold (\<lambda>l. server_log e t (p l) True) ls s) t =
     map_option (\<lambda>f. f @ map (\<lambda>l. p l @ [CHR 0x0A]) ls) (logfiles s t)"
proof (induction ls arbitrary: s)
  case Nil
  show ?case by (cases "logfiles s t") auto
next
  case (Cons l ls)
  show ?case
    using server_log_logfiles_same [of e t "p l" True s]
    by (cases "logfiles s t") (simp_all add: Cons.IH)
qed

lemma fold_raw_logfiles_other:
  "k \<noteq> t \<Longrightarrow> logfiles (fold (\<lambda>l. server_log e t (p l) True) ls s) k = logfiles s k"
  by (induction ls arbitrary: s) (simp_all add: server_log_logfiles_other)

lemma log_error_fun: "log_error e m raw = server_log e ''error'' m raw"
  by (rule ext) (simp add: log_error_def)

lemma log_exception_frame:
  "game (log_exception e rs x s) = game s"
  "request_queue (log_exception e rs x s) = request_queue s"
  "get_controller (log_exception e rs x s) = get_controller s"
  "post_controller (log_exception e rs x s) = post_controller s"
  "reply_queues (log_exception e rs x s) = reply_queues s"
  "http_running (log_exception e rs x s) = http_running s"
  "logfiles_closed (log_exception e rs x s) = logfiles_closed s"
  by (simp_all add: log_exception_def log_error_fun fold_raw_frame server_log_frame)

lemma log_exception_logfiles_error:
  "logfiles (log_exception e rs x s) ''error'' =
     map_option
       (\<lambda>f. f @ [now e (clock s) @ '' '' @ rs @ '' ! '' @ exc_name x @ '': '' @ exc_value x @ [CHR 0x0A]]
               @ map (\<lambda>l. ''    '' @ rstrip l @ [CHR 0x0A]) (trace_lines x))
       (logfiles s ''error'')"
  using server_log_logfiles_same [of e "''error''" "rs @ '' ! '' @ exc_name x @ '': '' @ exc_value x" False s]
  by (cases "logfiles s ''error''")
    (simp_all add: log_exception_def log_error_fun fold_raw_logfiles_same)

lemma log_exception_logfiles_other:
  "k \<noteq> ''error'' \<Longrightarrow> logfiles (log_exception e rs x s) k = logfiles s k"
  by (simp add: log_exception_def log_error_fun fold_raw_logfiles_other server_log_logfiles_other)

lemma set_controller_user_frame:
  "game (set_controller_user e m u c s) = game s"
  "request_queue (set_controller_user e m u c s) = request_queue s"
  "logfiles (set_controller_user e m u c s) = logfiles s"
  "stdout (set_controller_user e m u c s) = stdout s"
  "clock (set_controller_user e m u c s) = clock s"
  "reply_queues (set_controller_user e m u c s) = reply_queues s"
  "http_running (set_controller_user e m u c s) = http_running s"
  "logfiles_closed (set_controller_user e m u c s) = logfiles_closed s"
  by (simp_all add: set_controller_user_def)

lemma server_log_stdout:
  "stdout (server_log e t m raw s) =
     stdout s @ (if echo e t
                 then [if raw then m else ''['' @ upper t @ ''] '' @ now e (clock s) @ '' '' @ m]
                 else [])"
  by (simp add: server_log_def echo_def Let_def split: option.splits)

lemma fold_raw_stdout:
  "stdout (fold (\<lambda>l. server_log e t (p l) True) ls s) =
     stdout s @ (if echo e t then map p ls else [])"
  by (induction ls arbitrary: s) (simp_all add: server_log_stdout)

lemma log_exception_stdout:
  "stdout (log_exception e rs x s) =
     stdout s @ (if echo e ''error''
                 then (''[ERROR] '' @ now e (clock s) @ '' '' @ rs @ '' ! '' @ exc_name x @ '': '' @ exc_value x)
                        # map (\<lambda>l. ''    '' @ rstrip l) (trace_lines x)
                 else [])"
  by (simp add: log_exception_def log_error_fun fold_raw_stdout server_log_stdout
      upper_def upper_char_def)

lemma dispatch_handler:
  assumes "m \<in> set [''GET'', ''POST'']"
    and "attrs (controllers s m) cmd = Some f"
    and "is_public f = Some True \<or> \<not> is_guest e user (game s)"
  shows "dispatch e m cmd (Parsed a) cookie ip user s =
     (let s1 = set_controller_user e m user cookie s in
      case invoke f a user cookie (game s) of
        (Raised x, g) \<Rightarrow>
          if base x = Exception then
            (Returned (Error_response (exc_name x @ '': '' @ exc_value x) cookie),
             log_exception e (create_request_string e m cmd (Parsed a) ip) x (s1\<lparr>game := g\<rparr>))
          else (Raised x, s1\<lparr>game := g\<rparr>)
      | (Returned r, g) \<Rightarrow>
          (Returned (Ok_response r cookie),
           log_access e (create_request_string e m cmd (Parsed a) ip) False (s1\<lparr>game := g\<rparr>)))"
  using assms
  by (auto simp: dispatch_def Let_def set_controller_user_frame split: option.splits)

text \<open>
  C4. When the handler of a request is reached (known method, resolved command, parsed
  arguments, not denied) and raises an exception that derives from Exception, the
  exception is caught: the caller gets the failure response whose error string is the
  name of the exception type, a colon and the message, with nothing of the stack
  trace. The request line with that string and the lines of the stack trace go to the
  error channel: they are appended to the error log file, and echoed on standard
  output when \<^verbatim>\<open>SERVER_LOG_STDOUT\<close> says so for the error channel. The access and the
  system log files are unchanged.
\<close>

theorem handler_error_caught_and_logged:
  assumes "resolve_identity e cookie s = (cookie', user, s')"
    and "m \<in> set [''GET'', ''POST'']"
    and "attrs (controllers s m) cmd = Some f"
    and "is_public f = Some True \<or> \<not> is_guest e user (game s')"
    and "invoke f a user cookie' (game s') = (Raised x, g)"
    and "base x = Exception"
  shows "\<exists>s''. execute_client_request e m cmd (Parsed a) cookie ip s =
            (Returned (Error_response (exc_name x @ '': '' @ exc_value x) cookie'), s'')
       \<and> logfiles s'' ''error'' =
           map_option
             (\<lambda>lines. lines
                @ [now e (clock s) @ '' '' @ create_request_string e m cmd (Parsed a) ip @ '' ! ''
                     @ exc_name x @ '': '' @ exc_value x @ [CHR 0x0A]]
                @ map (\<lambda>trace_line. ''    '' @ rstrip trace_line @ [CHR 0x0A]) (trace_lines x))
             (logfiles s ''error'')
       \<and> logfiles s'' ''access'' = logfiles s ''access''
       \<and> logfiles s'' ''sys'' = logfiles s ''sys''
       \<and> stdout s'' =
           stdout s @ (if echo e ''error''
                       then (''[ERROR] '' @ now e (clock s) @ '' '' @ create_request_string e m cmd (Parsed a) ip
                               @ '' ! '' @ exc_name x @ '': '' @ exc_value x)
                              # map (\<lambda>trace_line. ''    '' @ rstrip trace_line) (trace_lines x)
                       else [])
       \<and> reply_queues s'' = reply_queues s"
proof -
  let ?rs = "create_request_string e m cmd (Parsed a) ip"
  let ?s1 = "(set_controller_user e m user cookie' s')\<lparr>game := g\<rparr>"
  have attrs': "attrs (controllers s' m) cmd = Some f"
    using assms(1,3) by (simp add: resolve_identity_fields)
  have run: "execute_client_request e m cmd (Parsed a) cookie ip s =
      (Returned (Error_response (exc_name x @ '': '' @ exc_value x) cookie'), log_exception e ?rs x ?s1)"
    using dispatch_handler [OF assms(2) attrs' assms(4), of a cookie' ip] assms(1,5,6)
    by (simp add: execute_client_request_def Let_def)
  have base_fields: "logfiles ?s1 = logfiles s" "clock ?s1 = clock s" "reply_queues ?s1 = reply_queues s"
    "stdout ?s1 = stdout s"
    using assms(1) by (simp_all add: set_controller_user_frame resolve_identity_fields)
  have err: "logfiles (log_exception e ?rs x ?s1) ''error'' =
      map_option
             (\<lambda>lines. lines
                @ [now e (clock s) @ '' '' @ ?rs @ '' ! ''
                     @ exc_name x @ '': '' @ exc_value x @ [CHR 0x0A]]
                @ map (\<lambda>trace_line. ''    '' @ rstrip trace_line @ [CHR 0x0A]) (trace_lines x))
             (logfiles s ''error'')"
    by (simp only: log_exception_logfiles_error base_fields)
  have other: "logfiles (log_exception e ?rs x ?s1) ''access'' = logfiles s ''access''"
    "logfiles (log_exception e ?rs x ?s1) ''sys'' = logfiles s ''sys''"
    by (simp_all add: log_exception_logfiles_other base_fields)
  have rq: "reply_queues (log_exception e ?rs x ?s1) = reply_queues s"
    by (simp only: log_exception_frame base_fields)
  have out: "stdout (log_exception e ?rs x ?s1) =
           stdout s @ (if echo e ''error''
                       then (''[ERROR] '' @ now e (clock s) @ '' '' @ ?rs
                               @ '' ! '' @ exc_name x @ '': '' @ exc_value x)
                              # map (\<lambda>trace_line. ''    '' @ rstrip trace_line) (trace_lines x)
                       else [])"
    by (simp only: log_exception_stdout base_fields)
  show ?thesis
    using run err other rq out by blast
qed

theorem handler_error_caught_and_logged_witness:
  "fst (execute_client_request demo_env ''GET'' ''pay'' (Parsed []) ''alice-cookie'' ''10.0.0.1'' demo_server)
     = Returned (Error_response ''ValueError: bad amount'' ''alice-cookie'')
   \<and> logfiles (snd (execute_client_request demo_env ''GET'' ''pay'' (Parsed []) ''alice-cookie''
                      ''10.0.0.1'' demo_server)) ''error''
     = Some [''T0 GET pay 10.0.0.1 ! ValueError: bad amount'' @ [CHR 0x0A],
             ''    Traceback (most recent call last):'' @ [CHR 0x0A],
             ''    ValueError: bad amount'' @ [CHR 0x0A]]
   \<and> logfiles (snd (execute_client_request demo_env ''GET'' ''pay'' (Parsed []) ''alice-cookie''
                      ''10.0.0.1'' demo_server)) ''access'' = Some []"
proof -
  have r: "resolve_identity demo_env ''alice-cookie'' demo_server = (''alice-cookie'', ''alice'', demo_server)"
    by (simp add: resolve_identity_def demo_env_def demo_server_def)
  have m: "''GET'' \<in> set [''GET'', ''POST'']"
    by simp
  have f: "attrs (controllers demo_server ''GET'') ''pay'' =
      Some \<lparr>is_public = Some True, invoke = (\<lambda>a user cookie g. (Raised value_error, g))\<rparr>"
    by (simp add: controllers_def demo_server_def demo_controller_def)
  from handler_error_caught_and_logged
    [where a = "[]" and x = value_error and g = 0 and ip = "''10.0.0.1''", OF r m f]
  obtain s'' where "execute_client_request demo_env ''GET'' ''pay'' (Parsed []) ''alice-cookie''
        ''10.0.0.1'' demo_server
      = (Returned (Error_response (exc_name value_error @ '': '' @ exc_value value_error) ''alice-cookie''), s'')"
    and "logfiles s'' ''error'' =
           map_option
             (\<lambda>lines. lines
                @ [now demo_env (clock demo_server) @ '' ''
                     @ create_request_string demo_env ''GET'' ''pay'' (Parsed []) ''10.0.0.1'' @ '' ! ''
                     @ exc_name value_error @ '': '' @ exc_value value_error @ [CHR 0x0A]]
                @ map (\<lambda>trace_line. ''    '' @ rstrip trace_line @ [CHR 0x0A]) (trace_lines value_error))
             (logfiles demo_server ''error'')"
    and "logfiles s'' ''access'' = logfiles demo_server ''access''"
    by (auto simp: value_error_def demo_server_def)
  then show ?thesis
    by (simp add: demo_env_def demo_server_def value_error_def str_nat.simps digit_char_def
        rstrip_def isspace_def)
qed

text \<open>
  C5. Take a request that comes to the authorization check (known method, resolved
  command, parsed arguments) and addresses a handler whose \<^verbatim>\<open>is_public\<close> is absent or
  false. If the resolved identity is a guest, the response is the access-denied
  failure and the handler is not invoked: the state is the one identity resolution
  left, with one more line in the error log. If the identity is not a guest, the
  handler is invoked: the game is the one the handler leaves and the response is made
  from the handler's outcome.
\<close>

theorem guest_denied_on_non_public:
  assumes "resolve_identity e cookie s = (cookie', user, s')"
    and "m \<in> set [''GET'', ''POST'']"
    and "attrs (controllers s m) cmd = Some f"
    and "is_public f = None \<or> is_public f = Some False"
  shows "(is_guest e user (game s') \<longrightarrow>
            execute_client_request e m cmd (Parsed a) cookie ip s =
              (Returned (Error_response ''Access denied. You have to login.'' cookie'),
               log_error e (create_request_string e m cmd (Parsed a) ip
                              @ '' ! Access denied. You have to login.'') False s'))
       \<and> (\<not> is_guest e user (game s') \<longrightarrow>
            game (snd (execute_client_request e m cmd (Parsed a) cookie ip s))
              = snd (invoke f a user cookie' (game s'))
            \<and> fst (execute_client_request e m cmd (Parsed a) cookie ip s)
              = (case fst (invoke f a user cookie' (game s')) of
                   Returned r \<Rightarrow> Returned (Ok_response r cookie')
                 | Raised x \<Rightarrow>
                     if base x = Exception
                     then Returned (Error_response (exc_name x @ '': '' @ exc_value x) cookie')
                     else Raised x))"
proof (intro conjI impI)
  have attrs': "attrs (controllers s' m) cmd = Some f"
    using assms(1,3) by (simp add: resolve_identity_fields)
  {
    assume "is_guest e user (game s')"
    then show "execute_client_request e m cmd (Parsed a) cookie ip s =
              (Returned (Error_response ''Access denied. You have to login.'' cookie'),
               log_error e (create_request_string e m cmd (Parsed a) ip
                              @ '' ! Access denied. You have to login.'') False s')"
      using assms attrs' by (auto simp: execute_client_request_def dispatch_def Let_def)
  }
  {
    assume ng: "\<not> is_guest e user (game s')"
    then have auth: "is_public f = Some True \<or> \<not> is_guest e user (game s')"
      by simp
    obtain out g where inv: "invoke f a user cookie' (game s') = (out, g)"
      by (cases "invoke f a user cookie' (game s')")
    have run: "execute_client_request e m cmd (Parsed a) cookie ip s =
        dispatch e m cmd (Parsed a) cookie' ip user s'"
      using assms(1) by (simp add: execute_client_request_def)
    show "game (snd (execute_client_request e m cmd (Parsed a) cookie ip s))
              = snd (invoke f a user cookie' (game s'))"
      unfolding run dispatch_handler [OF assms(2) attrs' auth]
      using inv by (cases out) (simp_all add: Let_def log_exception_frame log_access_frame)
    show "fst (execute_client_request e m cmd (Parsed a) cookie ip s)
              = (case fst (invoke f a user cookie' (game s')) of
                   Returned r \<Rightarrow> Returned (Ok_response r cookie')
                 | Raised x \<Rightarrow>
                     if base x = Exception
                     then Returned (Error_response (exc_name x @ '': '' @ exc_value x) cookie')
                     else Raised x)"
      unfolding run dispatch_handler [OF assms(2) attrs' auth]
      using inv by (cases out) (simp_all add: Let_def)
  }
qed

theorem guest_denied_on_non_public_witness:
  "fst (execute_client_request demo_env ''GET'' ''build'' (Parsed []) [] ''10.0.0.1'' demo_server)
     = Returned (Error_response ''Access denied. You have to login.'' ''guest-cookie'')
   \<and> game (snd (execute_client_request demo_env ''GET'' ''build'' (Parsed []) [] ''10.0.0.1''
                  demo_server)) = 0
   \<and> current_user (get_controller (snd (execute_client_request demo_env ''GET'' ''build'' (Parsed [])
                  [] ''10.0.0.1'' demo_server))) = None
   \<and> fst (execute_client_request demo_env ''GET'' ''build'' (Parsed []) ''alice-cookie'' ''10.0.0.1''
          demo_server)
     = Returned (Ok_response ''built'' ''alice-cookie'')"
proof -
  have m: "''GET'' \<in> set [''GET'', ''POST'']"
    by simp
  have f: "attrs (controllers demo_server ''GET'') ''build'' =
      Some \<lparr>is_public = None, invoke = (\<lambda>a user cookie g. (Returned ''built'', g))\<rparr>"
    by (simp add: controllers_def demo_server_def demo_controller_def)
  have guest: "resolve_identity demo_env [] demo_server = (''guest-cookie'', ''guest'', demo_server)"
    by (simp add: resolve_identity_def demo_env_def demo_server_def)
  have alice: "resolve_identity demo_env ''alice-cookie'' demo_server
      = (''alice-cookie'', ''alice'', demo_server)"
    by (simp add: resolve_identity_def demo_env_def demo_server_def)
  have "execute_client_request demo_env ''GET'' ''build'' (Parsed []) [] ''10.0.0.1'' demo_server =
      (Returned (Error_response ''Access denied. You have to login.'' ''guest-cookie''),
       log_error demo_env (create_request_string demo_env ''GET'' ''build'' (Parsed []) ''10.0.0.1''
                              @ '' ! Access denied. You have to login.'') False demo_server)"
    using guest_denied_on_non_public [where a = "[]" and ip = "''10.0.0.1''", OF guest m f]
    by (simp add: demo_env_def)
  moreover have "fst (execute_client_request demo_env ''GET'' ''build'' (Parsed []) ''alice-cookie''
        ''10.0.0.1'' demo_server) = Returned (Ok_response ''built'' ''alice-cookie'')"
    using guest_denied_on_non_public [where a = "[]" and ip = "''10.0.0.1''", OF alice m f]
    by (simp add: demo_env_def)
  ultimately show ?thesis
    by (simp add: log_error_frame) (simp add: demo_server_def demo_controller_def)
qed

text \<open>
  C6. Identity resolution comes first: the cookie is looked up; when no user is found
  a new session gives the cookie and the user; the session of the resulting cookie is
  renewed in both cases; the rest of the function runs with that cookie and user on
  that state. Every response the function returns, success or failure, carries that
  cookie.
\<close>

theorem token_in_every_response:
  "(case resolve_identity e cookie s of
      (cookie', user, s') \<Rightarrow>
        cookie' = (case get_user_by_auth_cookie e cookie (game s) of
                     None \<Rightarrow> fst (fst (create_new_session e (game s)))
                   | Some u \<Rightarrow> cookie)
        \<and> user = (case get_user_by_auth_cookie e cookie (game s) of
                     None \<Rightarrow> snd (fst (create_new_session e (game s)))
                   | Some u \<Rightarrow> u)
        \<and> game s' = renew_session e cookie'
                       (case get_user_by_auth_cookie e cookie (game s) of
                          None \<Rightarrow> snd (create_new_session e (game s))
                        | Some u \<Rightarrow> game s)
        \<and> execute_client_request e m cmd args cookie ip s = dispatch e m cmd args cookie' ip user s'
        \<and> (\<forall>response s''.
              execute_client_request e m cmd args cookie ip s = (Returned response, s'')
              \<longrightarrow> response_cookie response = cookie'))"
proof -
  obtain cookie' user s' where r: "resolve_identity e cookie s = (cookie', user, s')"
    by (cases "resolve_identity e cookie s") auto
  have run: "execute_client_request e m cmd args cookie ip s = dispatch e m cmd args cookie' ip user s'"
    using r by (simp add: execute_client_request_def)
  have "response_cookie response = cookie'"
    if "dispatch e m cmd args cookie' ip user s' = (Returned response, s'')" for response s''
    using that
    by (auto simp: dispatch_def Let_def split: if_splits option.splits arguments.splits
        prod.splits outcome.splits)
  then show ?thesis
    using r run resolve_identity_frame(2-4) [OF r] by simp
qed

theorem token_in_every_response_witness:
  "\<exists>response s''.
     execute_client_request demo_env ''GET'' ''whoami'' (Parsed []) [] ''10.0.0.1'' demo_server
       = (Returned response, s'')
     \<and> response = Ok_response ''guest'' ''guest-cookie''
     \<and> response_cookie response = ''guest-cookie''"
proof -
  have guest: "resolve_identity demo_env [] demo_server = (''guest-cookie'', ''guest'', demo_server)"
    by (simp add: resolve_identity_def demo_env_def demo_server_def)
  have run: "execute_client_request demo_env ''GET'' ''whoami'' (Parsed []) [] ''10.0.0.1'' demo_server
      = (Returned (Ok_response ''guest'' ''guest-cookie''),
         snd (execute_client_request demo_env ''GET'' ''whoami'' (Parsed []) [] ''10.0.0.1'' demo_server))"
    by (simp add: execute_client_request_def resolve_identity_def dispatch_def demo_defs
        controllers_def Let_def)
  have "response_cookie (Ok_response ''guest'' ''guest-cookie'' :: string response) = ''guest-cookie''"
    using token_in_every_response [where e = demo_env and cookie = "[]" and s = demo_server
        and m = "''GET''" and cmd = "''whoami''" and args = "Parsed []" and ip = "''10.0.0.1''"]
      guest run
    by simp
  then show ?thesis
    using run by blast
qed

subsection \<open>The main loop\<close>

lemma dispatch_frame:
  "reply_queues (snd (dispatch e m cmd args cookie ip user s)) = reply_queues s"
  "request_queue (snd (dispatch e m cmd args cookie ip user s)) = request_queue s"
  by (auto simp: dispatch_def Let_def log_error_frame log_access_frame log_exception_frame
      set_controller_user_frame split: option.splits arguments.splits prod.splits outcome.splits)

lemma dispatch_returns:
  assumes "\<forall>f a user cookie g x g'.
      attrs (controllers s m) cmd = Some f \<longrightarrow> args = Parsed a \<longrightarrow>
      invoke f a user cookie g = (Raised x, g') \<longrightarrow> base x = Exception"
  shows "\<exists>response. fst (dispatch e m cmd args cookie ip user s) = Returned response"
proof (cases "m \<in> set [''GET'', ''POST'']")
  case False
  then show ?thesis by (simp add: dispatch_def Let_def)
next
  case True
  show ?thesis
  proof (cases "attrs (controllers s m) cmd")
    case None
    then show ?thesis using True by (simp add: dispatch_def Let_def)
  next
    case (Some f)
    show ?thesis
    proof (cases args)
      case ArgumentSyntaxError
      then show ?thesis using True Some by (simp add: dispatch_def Let_def)
    next
      case (Parsed a)
      show ?thesis
      proof (cases "\<not> (case is_public f of None \<Rightarrow> False | Some b \<Rightarrow> b) \<and> is_guest e user (game s)")
        case denied: True
        then show ?thesis using True Some Parsed by (simp add: dispatch_def Let_def)
      next
        case allowed: False
        obtain out g where inv:
          "invoke f a user cookie (game (set_controller_user e m user cookie s)) = (out, g)"
          by (cases "invoke f a user cookie (game (set_controller_user e m user cookie s))")
        show ?thesis
        proof (cases out)
          case (Returned r)
          then show ?thesis
            using True Some Parsed allowed inv by (simp add: dispatch_def Let_def)
        next
          case (Raised x)
          then have "base x = Exception"
            using assms Some Parsed inv by blast
          then show ?thesis
            using True Some Parsed allowed inv Raised by (simp add: dispatch_def Let_def)
        qed
      qed
    qed
  qed
qed

lemma execute_client_request_returns:
  assumes "\<forall>f a user cookie g x g'.
      attrs (controllers s m) cmd = Some f \<longrightarrow> args = Parsed a \<longrightarrow>
      invoke f a user cookie g = (Raised x, g') \<longrightarrow> base x = Exception"
  shows "\<exists>response s1. execute_client_request e m cmd args cookie ip s = (Returned response, s1)
      \<and> reply_queues s1 = reply_queues s \<and> request_queue s1 = request_queue s"
proof -
  obtain cookie' user s' where r: "resolve_identity e cookie s = (cookie', user, s')"
    by (cases "resolve_identity e cookie s") auto
  have same: "controllers s' m = controllers s m"
    using r by (rule resolve_identity_fields)
  obtain response where "fst (dispatch e m cmd args cookie' ip user s') = Returned response"
    using dispatch_returns [of s' m cmd args e cookie' ip user] assms same by auto
  moreover have "execute_client_request e m cmd args cookie ip s
      = dispatch e m cmd args cookie' ip user s'"
    using r by (simp add: execute_client_request_def)
  ultimately have "execute_client_request e m cmd args cookie ip s =
      (Returned response, snd (dispatch e m cmd args cookie' ip user s'))"
    by (metis prod.collapse)
  then show ?thesis
    using resolve_identity_fields(1,7) [OF r] by (simp add: dispatch_frame)
qed

lemma leave_loop_fields:
  "fst (leave_loop e x s) =
     (if base x = KeyboardInterrupt \<or> base x = SystemExit then Returned () else Raised x)"
  "request_queue (snd (leave_loop e x s)) = request_queue s"
  "game (snd (leave_loop e x s)) = game s"
  "reply_queues (snd (leave_loop e x s)) = reply_queues s"
  "\<not> http_running (snd (leave_loop e x s))"
  "logfiles_closed (snd (leave_loop e x s))"
  by (simp_all add: leave_loop_def shutdown_def log_sys_frame)

lemma leave_loop_logfiles:
  "logfiles (snd (leave_loop e x s)) k =
     (if k = ''sys''
      then map_option
             (\<lambda>lines. lines @
                (if base x = KeyboardInterrupt \<or> base x = SystemExit
                 then [now e (clock s) @ '' Shutting down...'' @ [CHR 0x0A],
                       now e (Suc (clock s)) @ '' Shut down.'' @ [CHR 0x0A]]
                 else [now e (clock s) @ '' Shut down.'' @ [CHR 0x0A]]))
             (logfiles s k)
      else logfiles s k)"
  by (cases "logfiles s ''sys''")
    (auto simp: leave_loop_def shutdown_def log_sys_logfiles log_sys_clock)

lemma client_request_reply:
  assumes "request_queue s = Client_request r # rest"
    and "\<forall>f a user cookie g x g'.
      attrs (controllers s (req_method r)) (command r) = Some f \<longrightarrow> arguments r = Parsed a \<longrightarrow>
      invoke f a user cookie g = (Raised x, g') \<longrightarrow> base x = Exception"
  shows "\<exists>response s1.
      execute_client_request e (req_method r) (command r) (arguments r) (auth_cookie_value r)
          (client_ip r) (s\<lparr>request_queue := rest\<rparr>) = (Returned response, s1)
      \<and> request_queue s1 = rest
      \<and> reply_queues s1 = reply_queues s
      \<and> loop_body e s =
          (Returned (),
           s1\<lparr>reply_queues := (reply_queues s)
                 (response_queue r := reply_queues s (response_queue r) @ [response])\<rparr>)
      \<and> serve_forever e (Pass # evs) s =
          serve_forever e evs
            (s1\<lparr>reply_queues := (reply_queues s)
                  (response_queue r := reply_queues s (response_queue r) @ [response])\<rparr>)"
proof -
  let ?s0 = "s\<lparr>request_queue := rest\<rparr>"
  have "controllers ?s0 (req_method r) = controllers s (req_method r)"
    by (simp add: controllers_def)
  then obtain response s1 where run:
    "execute_client_request e (req_method r) (command r) (arguments r) (auth_cookie_value r)
          (client_ip r) ?s0 = (Returned response, s1)"
    and rq: "reply_queues s1 = reply_queues ?s0" and q: "request_queue s1 = request_queue ?s0"
    using execute_client_request_returns [of ?s0 "req_method r" "command r" "arguments r" e
        "auth_cookie_value r" "client_ip r"] assms(2)
    by auto
  have body: "loop_body e s =
          (Returned (),
           s1\<lparr>reply_queues := (reply_queues s)
                 (response_queue r := reply_queues s (response_queue r) @ [response])\<rparr>)"
    using assms(1) run rq by (simp add: loop_body_def)
  show ?thesis
    using run rq q body by simp
qed

lemma client_request_no_reply:
  assumes "request_queue s = Client_request r # rest"
    and "resolve_identity e (auth_cookie_value r) (s\<lparr>request_queue := rest\<rparr>) = (cookie', user, s')"
    and "req_method r \<in> set [''GET'', ''POST'']"
    and "attrs (controllers s (req_method r)) (command r) = Some f"
    and "arguments r = Parsed a"
    and "is_public f = Some True \<or> \<not> is_guest e user (game s')"
    and "invoke f a user cookie' (game s') = (Raised x, g)"
    and "base x \<noteq> Exception"
  shows "\<exists>s1. execute_client_request e (req_method r) (command r) (arguments r)
                 (auth_cookie_value r) (client_ip r) (s\<lparr>request_queue := rest\<rparr>) = (Raised x, s1)
             \<and> loop_body e s = (Raised x, s1)
             \<and> request_queue s1 = rest
             \<and> reply_queues s1 = reply_queues s
             \<and> (\<exists>s2. serve_forever e (Pass # evs) s =
                         (Some (if base x = KeyboardInterrupt \<or> base x = SystemExit
                                then Returned () else Raised x), s2)
                    \<and> request_queue s2 = rest
                    \<and> reply_queues s2 = reply_queues s
                    \<and> \<not> http_running s2
                    \<and> logfiles_closed s2)"
proof -
  let ?s0 = "s\<lparr>request_queue := rest\<rparr>"
  let ?s1 = "(set_controller_user e (req_method r) user cookie' s')\<lparr>game := g\<rparr>"
  have attrs': "attrs (controllers s' (req_method r)) (command r) = Some f"
  proof -
    have "controllers ?s0 (req_method r) = controllers s (req_method r)"
      by (simp add: controllers_def)
    then have "controllers s' (req_method r) = controllers s (req_method r)"
      using resolve_identity_fields(10) [OF assms(2), of "req_method r"] by simp
    then show ?thesis
      using assms(4) by simp
  qed
  have run: "execute_client_request e (req_method r) (command r) (arguments r)
                 (auth_cookie_value r) (client_ip r) ?s0 = (Raised x, ?s1)"
    using dispatch_handler [OF assms(3) attrs' assms(6), of a cookie' "client_ip r"] assms(2,5,7,8)
    by (simp add: execute_client_request_def Let_def)
  have body: "loop_body e s = (Raised x, ?s1)"
    using assms(1) run by (simp add: loop_body_def)
  have q: "request_queue ?s1 = rest" and rq: "reply_queues ?s1 = reply_queues s"
    using resolve_identity_fields(1,7) [OF assms(2)] by (simp_all add: set_controller_user_frame)
  have loop: "serve_forever e (Pass # evs) s =
      (Some (fst (leave_loop e x ?s1)), snd (leave_loop e x ?s1))"
    using body by (simp add: split_beta)
  have "\<exists>s2. serve_forever e (Pass # evs) s =
                         (Some (if base x = KeyboardInterrupt \<or> base x = SystemExit
                                then Returned () else Raised x), s2)
                    \<and> request_queue s2 = rest
                    \<and> reply_queues s2 = reply_queues s
                    \<and> \<not> http_running s2
                    \<and> logfiles_closed s2"
    unfolding loop
    by (rule exI [of _ "snd (leave_loop e x ?s1)"]) (simp add: leave_loop_fields q rq)
  then show ?thesis
    using run body q rq by blast
qed

text \<open>
  C1, as the code has it. Let the main loop take a client request from the queue.
  If its handler raises nothing but exceptions that derive from Exception,
  \<^verbatim>\<open>_execute_client_request\<close> returns a response, the pass of the loop appends exactly
  that one value to the reply queue of the request, leaves every other reply queue as
  it was, and the loop goes on with the next pass. If the handler is reached and
  raises an exception that does not derive from Exception (KeyboardInterrupt,
  SystemExit, another BaseException), the exception leaves \<^verbatim>\<open>_execute_client_request\<close>
  and the loop: the request is off the queue, no reply queue has changed, the HTTP
  server is shut down and the log files are closed; \<^verbatim>\<open>serve_forever\<close> returns for
  KeyboardInterrupt and SystemExit and ends with the exception otherwise.
\<close>

theorem client_request_gets_one_reply:
  assumes "request_queue s = Client_request r # rest"
  shows "((\<forall>f a user cookie g x g'.
             attrs (controllers s (req_method r)) (command r) = Some f \<longrightarrow> arguments r = Parsed a \<longrightarrow>
             invoke f a user cookie g = (Raised x, g') \<longrightarrow> base x = Exception) \<longrightarrow>
          (\<exists>response s1.
             execute_client_request e (req_method r) (command r) (arguments r) (auth_cookie_value r)
                 (client_ip r) (s\<lparr>request_queue := rest\<rparr>) = (Returned response, s1)
             \<and> request_queue s1 = rest
             \<and> reply_queues s1 = reply_queues s
             \<and> loop_body e s =
                 (Returned (),
                  s1\<lparr>reply_queues := (reply_queues s)
                        (response_queue r := reply_queues s (response_queue r) @ [response])\<rparr>)
             \<and> serve_forever e (Pass # evs) s =
                 serve_forever e evs
                   (s1\<lparr>reply_queues := (reply_queues s)
                         (response_queue r := reply_queues s (response_queue r) @ [response])\<rparr>)))
       \<and> (\<forall>cookie' user s' f a x g.
             resolve_identity e (auth_cookie_value r) (s\<lparr>request_queue := rest\<rparr>) = (cookie', user, s')
             \<and> req_method r \<in> set [''GET'', ''POST'']
             \<and> attrs (controllers s (req_method r)) (command r) = Some f
             \<and> arguments r = Parsed a
             \<and> (is_public f = Some True \<or> \<not> is_guest e user (game s'))
             \<and> invoke f a user cookie' (game s') = (Raised x, g)
             \<and> base x \<noteq> Exception
             \<longrightarrow>
             (\<exists>s1. execute_client_request e (req_method r) (command r) (arguments r)
                      (auth_cookie_value r) (client_ip r) (s\<lparr>request_queue := rest\<rparr>) = (Raised x, s1)
                 \<and> loop_body e s = (Raised x, s1)
                 \<and> request_queue s1 = rest
                 \<and> reply_queues s1 = reply_queues s
                 \<and> (\<exists>s2. serve_forever e (Pass # evs) s =
                             (Some (if base x = KeyboardInterrupt \<or> base x = SystemExit
                                    then Returned () else Raised x), s2)
                        \<and> request_queue s2 = rest
                        \<and> reply_queues s2 = reply_queues s
                        \<and> \<not> http_running s2
                        \<and> logfiles_closed s2)))"
proof (intro conjI impI allI)
  assume "\<forall>f a user cookie g x g'.
             attrs (controllers s (req_method r)) (command r) = Some f \<longrightarrow> arguments r = Parsed a \<longrightarrow>
             invoke f a user cookie g = (Raised x, g') \<longrightarrow> base x = Exception"
  then show "\<exists>response s1.
             execute_client_request e (req_method r) (command r) (arguments r) (auth_cookie_value r)
                 (client_ip r) (s\<lparr>request_queue := rest\<rparr>) = (Returned response, s1)
             \<and> request_queue s1 = rest
             \<and> reply_queues s1 = reply_queues s
             \<and> loop_body e s =
                 (Returned (),
                  s1\<lparr>reply_queues := (reply_queues s)
                        (response_queue r := reply_queues s (response_queue r) @ [response])\<rparr>)
             \<and> serve_forever e (Pass # evs) s =
                 serve_forever e evs
                   (s1\<lparr>reply_queues := (reply_queues s)
                         (response_queue r := reply_queues s (response_queue r) @ [response])\<rparr>)"
    by (rule client_request_reply [OF assms])
next
  fix cookie' user s' f a x g
  assume "resolve_identity e (auth_cookie_value r) (s\<lparr>request_queue := rest\<rparr>) = (cookie', user, s')
             \<and> req_method r \<in> set [''GET'', ''POST'']
             \<and> attrs (controllers s (req_method r)) (command r) = Some f
             \<and> arguments r = Parsed a
             \<and> (is_public f = Some True \<or> \<not> is_guest e user (game s'))
             \<and> invoke f a user cookie' (game s') = (Raised x, g)
             \<and> base x \<noteq> Exception"
  then show "\<exists>s1. execute_client_request e (req_method r) (command r) (arguments r)
                      (auth_cookie_value r) (client_ip r) (s\<lparr>request_queue := rest\<rparr>) = (Raised x, s1)
                 \<and> loop_body e s = (Raised x, s1)
                 \<and> request_queue s1 = rest
                 \<and> reply_queues s1 = reply_queues s
                 \<and> (\<exists>s2. serve_forever e (Pass # evs) s =
                             (Some (if base x = KeyboardInterrupt \<or> base x = SystemExit
                                    then Returned () else Raised x), s2)
                        \<and> request_queue s2 = rest
                        \<and> reply_queues s2 = reply_queues s
                        \<and> \<not> http_running s2
                        \<and> logfiles_closed s2)"
    using client_request_no_reply [OF assms, of e cookie' user s' f a x g evs] by blast
qed

theorem client_request_gets_one_reply_witness:
  "reply_queues
        (snd (loop_body demo_env (get_response_put (demo_request ''pay'' (Parsed []) []) demo_server))) 7
     = [Error_response ''ValueError: bad amount'' ''guest-cookie'']
   \<and> reply_queues
        (snd (loop_body demo_env (get_response_put (demo_request ''pay'' (Parsed []) []) demo_server))) 8
     = []
   \<and> fst (loop_body demo_env
            (get_response_put (demo_request ''quit'' (Parsed []) ''alice-cookie'') demo_server))
     = Raised system_exit
   \<and> reply_queues
        (snd (loop_body demo_env
                (get_response_put (demo_request ''quit'' (Parsed []) ''alice-cookie'') demo_server))) 7
     = []"
proof -
  let ?r = "demo_request ''pay'' (Parsed []) []"
  let ?s = "get_response_put ?r demo_server"
  have q: "request_queue ?s = Client_request ?r # []"
    by (simp add: get_response_put_def demo_server_def)
  have h: "\<forall>f a user cookie g x g'.
      attrs (controllers ?s (req_method ?r)) (command ?r) = Some f \<longrightarrow> arguments ?r = Parsed a \<longrightarrow>
      invoke f a user cookie g = (Raised x, g') \<longrightarrow> base x = Exception"
    by (auto simp: get_response_put_def demo_defs controllers_def)
  from client_request_gets_one_reply [OF q, of demo_env "[]"] h
  obtain response s1 where
    run: "execute_client_request demo_env (req_method ?r) (command ?r) (arguments ?r)
            (auth_cookie_value ?r) (client_ip ?r) (?s\<lparr>request_queue := []\<rparr>) = (Returned response, s1)"
    and body: "loop_body demo_env ?s =
          (Returned (),
           s1\<lparr>reply_queues := (reply_queues ?s)
                 (response_queue ?r := reply_queues ?s (response_queue ?r) @ [response])\<rparr>)"
    by blast
  have "fst (execute_client_request demo_env (req_method ?r) (command ?r) (arguments ?r)
            (auth_cookie_value ?r) (client_ip ?r) (?s\<lparr>request_queue := []\<rparr>))
      = Returned (Error_response ''ValueError: bad amount'' ''guest-cookie'')"
    by (simp add: execute_client_request_def resolve_identity_def dispatch_def demo_defs
        controllers_def Let_def get_response_put_def set_controller_user_def)
  then have "response = Error_response ''ValueError: bad amount'' ''guest-cookie''"
    using run by simp
  then have first: "reply_queues (snd (loop_body demo_env ?s)) 7
        = [Error_response ''ValueError: bad amount'' ''guest-cookie'']
      \<and> reply_queues (snd (loop_body demo_env ?s)) 8 = []"
    using body by (simp add: get_response_put_def demo_request_def demo_server_def)
  let ?r' = "demo_request ''quit'' (Parsed []) ''alice-cookie''"
  let ?s' = "get_response_put ?r' demo_server"
  let ?f = "\<lparr>is_public = Some True,
             invoke = (\<lambda>a user cookie g. (Raised system_exit, g :: nat))\<rparr>
            :: (nat, string, (string \<times> string) list, string) controller_function"
  have q': "request_queue ?s' = Client_request ?r' # []"
    by (simp add: get_response_put_def demo_server_def)
  have h': "resolve_identity demo_env (auth_cookie_value ?r') (?s'\<lparr>request_queue := []\<rparr>)
        = (''alice-cookie'', ''alice'', ?s'\<lparr>request_queue := []\<rparr>)
      \<and> req_method ?r' \<in> set [''GET'', ''POST'']
      \<and> attrs (controllers ?s' (req_method ?r')) (command ?r') = Some ?f
      \<and> arguments ?r' = Parsed []
      \<and> (is_public ?f = Some True \<or> \<not> is_guest demo_env ''alice'' (game (?s'\<lparr>request_queue := []\<rparr>)))
      \<and> invoke ?f [] ''alice'' ''alice-cookie'' (game (?s'\<lparr>request_queue := []\<rparr>)) = (Raised system_exit, 0)
      \<and> base system_exit \<noteq> Exception"
    by (simp add: resolve_identity_def get_response_put_def demo_defs controllers_def)
  from client_request_gets_one_reply [OF q', of demo_env "[]"] h'
  obtain s1' where "loop_body demo_env ?s' = (Raised system_exit, s1')"
    and "reply_queues s1' = reply_queues ?s'"
    by blast
  then have second: "fst (loop_body demo_env ?s') = Raised system_exit
      \<and> reply_queues (snd (loop_body demo_env ?s')) 7 = []"
    by (simp add: get_response_put_def demo_request_def demo_server_def)
  show ?thesis
    using first second by blast
qed

text \<open>
  C1 as stated fails for a handler that raises SystemExit: \<^verbatim>\<open>except Exception\<close> does
  not catch it, the request is taken from the queue, nothing is put on its reply
  queue and \<^verbatim>\<open>serve_forever\<close> shuts down and returns.
\<close>

theorem system_exit_no_reply_counterexample:
  "fst (execute_client_request demo_env ''GET'' ''quit'' (Parsed []) ''alice-cookie'' ''10.0.0.1''
          demo_server) = Raised system_exit
   \<and> fst (serve_forever demo_env [Submit (demo_request ''quit'' (Parsed []) ''alice-cookie''), Pass]
            demo_server) = Some (Returned ())
   \<and> request_queue (snd (serve_forever demo_env
        [Submit (demo_request ''quit'' (Parsed []) ''alice-cookie''), Pass] demo_server)) = []
   \<and> reply_queues (snd (serve_forever demo_env
        [Submit (demo_request ''quit'' (Parsed []) ''alice-cookie''), Pass] demo_server)) 7 = []"
  by (simp add: execute_client_request_def resolve_identity_def dispatch_def demo_defs
      controllers_def Let_def get_response_put_def set_controller_user_def loop_body_def
      leave_loop_def shutdown_def log_sys_frame)

text \<open>
  C2, as the code has it. No \<^verbatim>\<open>try\<close> stands around the execution of an inner command.
  When \<^verbatim>\<open>sim\<close> raises during a Sim command, the exception leaves the loop: the items
  behind it stay on the queue, the HTTP server is shut down, the line "Shut down." is
  written to the system log (after "Shutting down..." for KeyboardInterrupt and
  SystemExit, where \<^verbatim>\<open>serve_forever\<close> returns) and the log files are closed; any other
  exception goes on to the caller of \<^verbatim>\<open>serve_forever\<close>. Nothing about the error is
  logged. When the inner command raises nothing, the loop goes on with the next pass.
\<close>

theorem inner_command_error_leaves_loop:
  assumes "request_queue s = Inner_command cmd # rest"
  shows "(\<forall>x g. cmd = Sim \<and> sim e (game s) = (Raised x, g) \<longrightarrow>
            (\<exists>s'. serve_forever e (Pass # evs) s =
                     (Some (if base x = KeyboardInterrupt \<or> base x = SystemExit
                            then Returned () else Raised x), s')
                \<and> request_queue s' = rest
                \<and> game s' = g
                \<and> \<not> http_running s'
                \<and> logfiles_closed s'
                \<and> logfiles s' ''sys'' =
                    map_option
                      (\<lambda>lines. lines @
                         (if base x = KeyboardInterrupt \<or> base x = SystemExit
                          then [now e (clock s) @ '' Shutting down...'' @ [CHR 0x0A],
                                now e (Suc (clock s)) @ '' Shut down.'' @ [CHR 0x0A]]
                          else [now e (clock s) @ '' Shut down.'' @ [CHR 0x0A]]))
                      (logfiles s ''sys'')
                \<and> logfiles s' ''error'' = logfiles s ''error''))
       \<and> (cmd \<noteq> Sim \<or> fst (sim e (game s)) = Returned () \<longrightarrow>
            fst (execute_inner_command e cmd (s\<lparr>request_queue := rest\<rparr>)) = Returned ()
            \<and> serve_forever e (Pass # evs) s =
                serve_forever e evs (snd (execute_inner_command e cmd (s\<lparr>request_queue := rest\<rparr>))))"
proof (intro conjI allI impI)
  fix x g
  assume "cmd = Sim \<and> sim e (game s) = (Raised x, g)"
  then have cmd: "cmd = Sim" and raises: "sim e (game s) = (Raised x, g)"
    by simp_all
  let ?s0 = "s\<lparr>request_queue := rest, game := g\<rparr>"
  have body: "loop_body e s = (Raised x, ?s0)"
    using assms cmd raises by (simp add: loop_body_def execute_inner_command_def)
  have run: "serve_forever e (Pass # evs) s = (Some (fst (leave_loop e x ?s0)), snd (leave_loop e x ?s0))"
    using body by (simp add: split_beta)
  show "\<exists>s'. serve_forever e (Pass # evs) s =
                     (Some (if base x = KeyboardInterrupt \<or> base x = SystemExit
                            then Returned () else Raised x), s')
                \<and> request_queue s' = rest
                \<and> game s' = g
                \<and> \<not> http_running s'
                \<and> logfiles_closed s'
                \<and> logfiles s' ''sys'' =
                    map_option
                      (\<lambda>lines. lines @
                         (if base x = KeyboardInterrupt \<or> base x = SystemExit
                          then [now e (clock s) @ '' Shutting down...'' @ [CHR 0x0A],
                                now e (Suc (clock s)) @ '' Shut down.'' @ [CHR 0x0A]]
                          else [now e (clock s) @ '' Shut down.'' @ [CHR 0x0A]]))
                      (logfiles s ''sys'')
                \<and> logfiles s' ''error'' = logfiles s ''error''"
    unfolding run
    by (rule exI [of _ "snd (leave_loop e x ?s0)"])
      (simp add: leave_loop_fields leave_loop_logfiles)
next
  assume ok: "cmd \<noteq> Sim \<or> fst (sim e (game s)) = Returned ()"
  let ?s0 = "s\<lparr>request_queue := rest\<rparr>"
  show ret: "fst (execute_inner_command e cmd ?s0) = Returned ()"
    using ok by (cases "sim e (game s)") (auto simp: execute_inner_command_def)
  have body: "loop_body e s = execute_inner_command e cmd ?s0"
    using assms by (simp add: loop_body_def)
  show "serve_forever e (Pass # evs) s = serve_forever e evs (snd (execute_inner_command e cmd ?s0))"
    using body ret by (cases "execute_inner_command e cmd ?s0") simp
qed

theorem inner_command_error_leaves_loop_witness:
  "(\<exists>s'. serve_forever failing_sim_env [Pass, Pass] (cron_fun Dump (cron_fun Sim demo_server))
           = (Some (Raised value_error), s')
        \<and> request_queue s' = [Inner_command Dump]
        \<and> logfiles s' ''sys'' = Some [''T0 Shut down.'' @ [CHR 0x0A]])
   \<and> serve_forever demo_env [Pass] (cron_fun Dump demo_server)
       = (None, snd (execute_inner_command demo_env Dump demo_server))"
proof -
  let ?s = "cron_fun Dump (cron_fun Sim demo_server)"
  have q: "request_queue ?s = Inner_command Sim # [Inner_command Dump]"
    by (simp add: cron_fun_def demo_server_def)
  have raises: "Sim = Sim \<and> sim failing_sim_env (game ?s) = (Raised value_error, 0)"
    by (simp add: failing_sim_env_def demo_env_def cron_fun_def demo_server_def)
  from inner_command_error_leaves_loop [OF q, of failing_sim_env "[Pass]"] raises
  obtain s' where "serve_forever failing_sim_env [Pass, Pass] ?s =
                     (Some (if base value_error = KeyboardInterrupt \<or> base value_error = SystemExit
                            then Returned () else Raised value_error), s')"
     and "request_queue s' = [Inner_command Dump]"
     and "logfiles s' ''sys'' =
                    map_option
                      (\<lambda>lines. lines @
                         (if base value_error = KeyboardInterrupt \<or> base value_error = SystemExit
                          then [now failing_sim_env (clock ?s) @ '' Shutting down...'' @ [CHR 0x0A],
                                now failing_sim_env (Suc (clock ?s)) @ '' Shut down.'' @ [CHR 0x0A]]
                          else [now failing_sim_env (clock ?s) @ '' Shut down.'' @ [CHR 0x0A]]))
                      (logfiles ?s ''sys'')"
    by blast
  then have first: "\<exists>s'. serve_forever failing_sim_env [Pass, Pass] ?s = (Some (Raised value_error), s')
        \<and> request_queue s' = [Inner_command Dump]
        \<and> logfiles s' ''sys'' = Some [''T0 Shut down.'' @ [CHR 0x0A]]"
    by (simp add: value_error_def failing_sim_env_def demo_env_def cron_fun_def demo_server_def
        str_nat.simps digit_char_def)
  have q2: "request_queue (cron_fun Dump demo_server) = Inner_command Dump # []"
    by (simp add: cron_fun_def demo_server_def)
  have "(cron_fun Dump demo_server)\<lparr>request_queue := []\<rparr> = demo_server"
    by (simp add: cron_fun_def demo_server_def)
  then have second: "serve_forever demo_env [Pass] (cron_fun Dump demo_server)
       = (None, snd (execute_inner_command demo_env Dump demo_server))"
    using inner_command_error_leaves_loop [OF q2, of demo_env "[]"] by simp
  show ?thesis
    using first second by blast
qed

text \<open>
  C2 as stated fails: with a \<^verbatim>\<open>sim\<close> that raises a ValueError, the Sim command ends
  \<^verbatim>\<open>serve_forever\<close> with that exception, the Dump command behind it is never executed
  and no log has a line about the error.
\<close>

theorem sim_error_stops_server_counterexample:
  "fst (serve_forever failing_sim_env [Cron Sim, Cron Dump, Pass, Pass] demo_server)
     = Some (Raised value_error)
   \<and> request_queue (snd (serve_forever failing_sim_env [Cron Sim, Cron Dump, Pass, Pass] demo_server))
     = [Inner_command Dump]
   \<and> logfiles (snd (serve_forever failing_sim_env [Cron Sim, Cron Dump, Pass, Pass] demo_server)) ''sys''
     = Some [''T0 Shut down.'' @ [CHR 0x0A]]
   \<and> logfiles (snd (serve_forever failing_sim_env [Cron Sim, Cron Dump, Pass, Pass] demo_server)) ''error''
     = Some []
   \<and> \<not> http_running (snd (serve_forever failing_sim_env [Cron Sim, Cron Dump, Pass, Pass] demo_server))"
  by (simp add: failing_sim_env_def demo_defs cron_fun_def loop_body_def execute_inner_command_def
      leave_loop_def shutdown_def log_sys_def server_log_def echo_def Let_def str_nat.simps
      digit_char_def)

end
